theory Spec2Isabelle
  imports Main "HOL-Library.Sublist" "HOL-Library.AList"
begin

section \<open>Byte strings\<close>

text \<open>
  Go strings and byte slices are sequences of 8-bit bytes; \<^typ>\<open>char\<close> is an 8-bit byte,
  so both are modelled as \<^typ>\<open>char list\<close>.
\<close>

type_synonym bytes = "char list"

text \<open>\<^verbatim>\<open>strings.Join(elems, sep)\<close>.\<close>

fun strings_Join :: "string list \<Rightarrow> string \<Rightarrow> string" where
  "strings_Join [] sep = []"
| "strings_Join [e] sep = e"
| "strings_Join (e # es) sep = e @ sep @ strings_Join es sep"

text \<open>\<^verbatim>\<open>strings.Contains(s, substr)\<close> and \<^verbatim>\<open>bytes.Contains\<close>: \<^verbatim>\<open>substr\<close> occurs somewhere in \<^verbatim>\<open>s\<close>.\<close>

fun Contains :: "bytes \<Rightarrow> bytes \<Rightarrow> bool" where
  "Contains [] substr = (substr = [])"
| "Contains (c # cs) substr = (prefix substr (c # cs) \<or> Contains cs substr)"

section \<open>Terminal manager: the capped output buffer\<close>

text \<open>
  \<^verbatim>\<open>type cappedBuffer struct { mu sync.Mutex; buf []byte; limit int; truncated bool }\<close>
  The mutex serialises \<^verbatim>\<open>Write\<close> and \<^verbatim>\<open>Snapshot\<close>; each is one atomic step on the record.
\<close>

record cappedBuffer =
  buf :: bytes
  limit :: int
  truncated :: bool

text \<open>
  \<^verbatim>\<open>Write\<close> appends, and when a positive limit is exceeded keeps the last \<^verbatim>\<open>limit\<close> bytes
  and raises the flag. It returns \<^verbatim>\<open>(len(p), nil)\<close> always.
\<close>

definition Write :: "cappedBuffer \<Rightarrow> bytes \<Rightarrow> nat \<times> cappedBuffer" where
  "Write b p =
     (let appended = buf b @ p in
      if limit b > 0 \<and> int (length appended) > limit b
      then (let over = length appended - nat (limit b)
            in (length p, b\<lparr>buf := drop over appended, truncated := True\<rparr>))
      else (length p, b\<lparr>buf := appended\<rparr>))"

definition Snapshot :: "cappedBuffer \<Rightarrow> bytes \<times> bool" where
  "Snapshot b = (buf b, truncated b)"

text \<open>\<^verbatim>\<open>&cappedBuffer{limit: limit}\<close>, as \<^verbatim>\<open>Create\<close> allocates it.\<close>

definition newCappedBuffer :: "int \<Rightarrow> cappedBuffer" where
  "newCappedBuffer l = \<lparr>buf = [], limit = l, truncated = False\<rparr>"

text \<open>A finite sequence of writes, in order.\<close>

definition writeAll :: "cappedBuffer \<Rightarrow> bytes list \<Rightarrow> cappedBuffer" where
  "writeAll b ws = fold (\<lambda>p b'. snd (Write b' p)) ws b"

section \<open>White space, as package \<^verbatim>\<open>unicode\<close> defines it\<close>

text \<open>
  \<^verbatim>\<open>strings.Fields\<close> and \<^verbatim>\<open>bytes.TrimSpace\<close> split and trim at the runes for which
  \<^verbatim>\<open>unicode.IsSpace\<close> holds: tab, LF, VT, FF, CR, space, U+0085, U+00A0, U+1680,
  U+2000..U+200A, U+2028, U+2029, U+202F, U+205F and U+3000. Both work on UTF-8 bytes, so
  the table below lists the encodings. Every multi-byte encoding starts with a lead byte,
  which no decoder consumes as the tail of an earlier rune; so a space rune stands at a
  position exactly when the bytes there start with one of these encodings (and a string
  ends in a space rune exactly when it ends with one of them).
\<close>

definition spaceRunes :: "bytes list" where
  "spaceRunes =
    [[CHR 0x09], [CHR 0x0A], [CHR 0x0B], [CHR 0x0C], [CHR 0x0D], [CHR 0x20],
     [CHR 0xC2, CHR 0x85], [CHR 0xC2, CHR 0xA0],
     [CHR 0xE1, CHR 0x9A, CHR 0x80],
     [CHR 0xE2, CHR 0x80, CHR 0x80], [CHR 0xE2, CHR 0x80, CHR 0x81],
     [CHR 0xE2, CHR 0x80, CHR 0x82], [CHR 0xE2, CHR 0x80, CHR 0x83],
     [CHR 0xE2, CHR 0x80, CHR 0x84], [CHR 0xE2, CHR 0x80, CHR 0x85],
     [CHR 0xE2, CHR 0x80, CHR 0x86], [CHR 0xE2, CHR 0x80, CHR 0x87],
     [CHR 0xE2, CHR 0x80, CHR 0x88], [CHR 0xE2, CHR 0x80, CHR 0x89],
     [CHR 0xE2, CHR 0x80, CHR 0x8A],
     [CHR 0xE2, CHR 0x80, CHR 0xA8], [CHR 0xE2, CHR 0x80, CHR 0xA9],
     [CHR 0xE2, CHR 0x80, CHR 0xAF],
     [CHR 0xE2, CHR 0x81, CHR 0x9F],
     [CHR 0xE3, CHR 0x80, CHR 0x80]]"

text \<open>The width in bytes of the space rune a string starts with (ends with); 0 if none.\<close>

definition spaceWidth :: "bytes \<Rightarrow> nat" where
  "spaceWidth s = (case find (\<lambda>e. prefix e s) spaceRunes of None \<Rightarrow> 0 | Some e \<Rightarrow> length e)"

definition spaceWidthEnd :: "bytes \<Rightarrow> nat" where
  "spaceWidthEnd s = (case find (\<lambda>e. suffix e s) spaceRunes of None \<Rightarrow> 0 | Some e \<Rightarrow> length e)"

text \<open>
  \<^verbatim>\<open>bytes.TrimSpace(s)\<close>: the leading space runes are dropped, reading from the left, then
  the trailing ones, reading from the right. \<^verbatim>\<open>skip\<close> counts the bytes of a space rune
  still to drop; \<^verbatim>\<open>trimRightFrom\<close> works on the reversed string.
\<close>

fun trimLeftFrom :: "nat \<Rightarrow> bytes \<Rightarrow> bytes" where
  "trimLeftFrom skip [] = []"
| "trimLeftFrom skip (c # cs) =
     (if 0 < skip then trimLeftFrom (skip - 1) cs
      else (case spaceWidth (c # cs) of
              0 \<Rightarrow> c # cs
            | Suc n \<Rightarrow> trimLeftFrom n cs))"

fun trimRightFrom :: "nat \<Rightarrow> bytes \<Rightarrow> bytes" where
  "trimRightFrom skip [] = []"
| "trimRightFrom skip (c # cs) =
     (if 0 < skip then trimRightFrom (skip - 1) cs
      else (case spaceWidthEnd (rev (c # cs)) of
              0 \<Rightarrow> c # cs
            | Suc n \<Rightarrow> trimRightFrom n cs))"

definition TrimSpace :: "bytes \<Rightarrow> bytes" where
  "TrimSpace s = rev (trimRightFrom 0 (rev (trimLeftFrom 0 s)))"

text \<open>
  \<^verbatim>\<open>strings.Fields(s)\<close>: the maximal runs of non-space runes, in order. \<^verbatim>\<open>skip\<close> counts the
  bytes of a space rune still to pass over, \<^verbatim>\<open>cur\<close> is the field being read.
\<close>

fun fieldsFrom :: "nat \<Rightarrow> string \<Rightarrow> string \<Rightarrow> string list" where
  "fieldsFrom skip cur [] = (if cur = [] then [] else [cur])"
| "fieldsFrom skip cur (c # cs) =
     (if 0 < skip then fieldsFrom (skip - 1) cur cs
      else (case spaceWidth (c # cs) of
              0 \<Rightarrow> fieldsFrom 0 (cur @ [c]) cs
            | Suc n \<Rightarrow> (if cur = [] then [] else [cur]) @ fieldsFrom n [] cs))"

definition Fields :: "string \<Rightarrow> string list" where
  "Fields s = fieldsFrom 0 [] s"

section \<open>Terminal manager: the command allowlist\<close>

text \<open>\<^verbatim>\<open>config.CustomCommand\<close>, which \<^verbatim>\<open>tools.Command\<close> aliases: one allowlist entry.\<close>

record Command =
  ID :: string
  Template :: string
  Description :: string
  Category :: string
  AllowArgs :: bool
  MaxArgs :: int
  Env :: "string list"

text \<open>
  \<^verbatim>\<open>tokensMatchPrefix(prefix, full)\<close>: false when \<^verbatim>\<open>prefix\<close> is the longer; otherwise the loop
  \<^verbatim>\<open>for i := range prefix\<close> compares the two index by index.
\<close>

definition tokensMatchPrefix :: "string list \<Rightarrow> string list \<Rightarrow> bool" where
  "tokensMatchPrefix pre full =
     (if length pre > length full then False
      else list_all (\<lambda>i. pre ! i = full ! i) [0..<length pre])"

text \<open>
  \<^verbatim>\<open>matchAllowlist(command, args)\<close> over the manager's \<^verbatim>\<open>commands\<close>, in declared order. Each
  \<^verbatim>\<open>continue\<close> of the loop is a recursive call on the remaining entries; the error is
  \<^verbatim>\<open>fmt.Errorf("command not in allowlist")\<close>.
\<close>

fun matchAllowlist :: "Command list \<Rightarrow> string \<Rightarrow> string list \<Rightarrow> string + (Command \<times> string list)" where
  "matchAllowlist [] command args = Inl ''command not in allowlist''"
| "matchAllowlist (cmd # cmds) command args =
     (let requested = command # args;
          templateTokens = Fields (Template cmd)
      in if length templateTokens = 0 then matchAllowlist cmds command args
         else if length requested < length templateTokens then matchAllowlist cmds command args
         else if \<not> tokensMatchPrefix templateTokens requested then matchAllowlist cmds command args
         else (let extra = drop (length templateTokens) requested
               in if length extra > 0 \<and> \<not> AllowArgs cmd then matchAllowlist cmds command args
                  else if length extra > 0 \<and> MaxArgs cmd > 0 \<and> int (length extra) > MaxArgs cmd
                       then matchAllowlist cmds command args
                  else Inr (cmd, extra)))"

text \<open>The built-in allowlists of \<^verbatim>\<open>internal/mcp/tools/exec.go\<close>.\<close>

definition mkCommand :: "string \<Rightarrow> string \<Rightarrow> string \<Rightarrow> string \<Rightarrow> bool \<Rightarrow> int \<Rightarrow> Command" where
  "mkCommand i t d c a m =
     \<lparr>ID = i, Template = t, Description = d, Category = c, AllowArgs = a, MaxArgs = m, Env = []\<rparr>"

definition defaultUnixCommands :: "Command list" where
  "defaultUnixCommands =
    [mkCommand ''pytest'' ''python -m pytest'' ''Run Python tests with pytest'' ''test'' True 20,
     mkCommand ''npm_test'' ''npm test'' ''Run npm tests'' ''test'' True 10,
     mkCommand ''go_test'' ''go test ./...'' ''Run Go tests'' ''test'' True 10,
     mkCommand ''cargo_test'' ''cargo test'' ''Run Rust tests'' ''test'' True 10,
     mkCommand ''ruff'' ''ruff check'' ''Run Ruff Python linter'' ''lint'' True 10,
     mkCommand ''eslint'' ''npx eslint'' ''Run ESLint'' ''lint'' True 10,
     mkCommand ''golint'' ''golangci-lint run'' ''Run Go linter'' ''lint'' True 10,
     mkCommand ''prettier'' ''npx prettier --write'' ''Format with Prettier'' ''format'' True 20,
     mkCommand ''black'' ''black'' ''Format Python with Black'' ''format'' True 20,
     mkCommand ''gofmt'' ''go fmt ./...'' ''Format Go code'' ''format'' True 5,
     mkCommand ''npm_install'' ''npm install'' ''Install npm dependencies'' ''package'' False 0,
     mkCommand ''pip_install'' ''pip install -r requirements.txt'' ''Install Python dependencies''
       ''package'' False 0,
     mkCommand ''go_mod_tidy'' ''go mod tidy'' ''Tidy Go modules'' ''package'' False 0]"

definition defaultWindowsCommands :: "Command list" where
  "defaultWindowsCommands =
    [mkCommand ''pytest'' ''python -m pytest'' ''Run Python tests with pytest'' ''test'' True 20,
     mkCommand ''npm_test'' ''npm test'' ''Run npm tests'' ''test'' True 10,
     mkCommand ''go_test'' ''go test ./...'' ''Run Go tests'' ''test'' True 10,
     mkCommand ''cargo_test'' ''cargo test'' ''Run Rust tests'' ''test'' True 10,
     mkCommand ''dotnet_test'' ''dotnet test'' ''Run .NET tests'' ''test'' True 10,
     mkCommand ''eslint'' ''npx eslint'' ''Run ESLint'' ''lint'' True 10,
     mkCommand ''prettier'' ''npx prettier --write'' ''Format with Prettier'' ''format'' True 20,
     mkCommand ''npm_install'' ''npm install'' ''Install npm dependencies'' ''package'' False 0,
     mkCommand ''pip_install'' ''pip install -r requirements.txt'' ''Install Python dependencies''
       ''package'' False 0,
     mkCommand ''nuget_restore'' ''nuget restore'' ''Restore NuGet packages'' ''package'' True 5]"

text \<open>\<^verbatim>\<open>DefaultCommands()\<close> chooses by \<^verbatim>\<open>runtime.GOOS == "windows"\<close>.\<close>

definition DefaultCommands :: "bool \<Rightarrow> Command list" where
  "DefaultCommands windows = (if windows then defaultWindowsCommands else defaultUnixCommands)"

text \<open>
  When an allowlist entry accepts a request, read off the loop of \<^verbatim>\<open>matchAllowlist\<close>: the
  template has at least one token, its tokens start the request, and the rest is empty or
  allowed (\<^verbatim>\<open>AllowArgs\<close>) and not over a positive \<^verbatim>\<open>MaxArgs\<close>.
\<close>

definition entry_accepts :: "Command \<Rightarrow> string list \<Rightarrow> bool" where
  "entry_accepts c requested =
     (let toks = Fields (Template c); extra = drop (length toks) requested
      in toks \<noteq> [] \<and> prefix toks requested \<and>
         (extra = [] \<or> (AllowArgs c \<and> (MaxArgs c \<le> 0 \<or> int (length extra) \<le> MaxArgs c))))"

text \<open>
  The same condition in the words of the specification: the tokenised template is a prefix
  of the request and the rest is empty, or \<^verbatim>\<open>allow_args\<close> holds and
  (\<^verbatim>\<open>max_args == 0\<close> or \<^verbatim>\<open>len(extra) <= max_args\<close>).
\<close>

definition spec_entry_matches :: "Command \<Rightarrow> string list \<Rightarrow> bool" where
  "spec_entry_matches c requested =
     (let toks = Fields (Template c); extra = drop (length toks) requested
      in prefix toks requested \<and>
         (extra = [] \<or> (AllowArgs c \<and> (MaxArgs c = 0 \<or> int (length extra) \<le> MaxArgs c))))"


section \<open>The platform: \<^verbatim>\<open>path/filepath\<close>, \<^verbatim>\<open>os\<close> and \<^verbatim>\<open>os/exec\<close>\<close>

text \<open>
  The guard and the terminal manager call the Go standard library and, through it, the
  operating system. Those calls are the fields of a record, so that every function of the
  repository is modelled over any behaviour of the platform; a model of the
  calls on a Unix file system follows further down and is what concrete runs use.

  \<^verbatim>\<open>os.IsNotExist(err)\<close> is the only question the code asks of an error of the system.
\<close>

datatype os_error = ErrNotExist | ErrOther

text \<open>\<^verbatim>\<open>exec.Cmd\<close>, as far as \<^verbatim>\<open>Create\<close> fills it in.\<close>

record execCmd =
  cmd_Path :: string
  cmd_Args :: "string list"
  cmd_Dir :: string
  cmd_Env :: "string list"

record platform =
  windows :: bool  \<comment> \<open>\<^verbatim>\<open>runtime.GOOS == "windows"\<close>\<close>
  filepath_IsAbs :: "string \<Rightarrow> bool"
  filepath_Clean :: "string \<Rightarrow> string"
  filepath_Join :: "string list \<Rightarrow> string"
  filepath_Dir :: "string \<Rightarrow> string"
  filepath_Base :: "string \<Rightarrow> string"
  filepath_Rel :: "string \<Rightarrow> string \<Rightarrow> string + string"
  filepath_Abs :: "string \<Rightarrow> string + string"
  filepath_Match :: "string \<Rightarrow> string \<Rightarrow> string + bool"
  filepath_EvalSymlinks :: "string \<Rightarrow> os_error + string"
  os_Stat :: "string \<Rightarrow> os_error + bool"  \<comment> \<open>\<^verbatim>\<open>info.IsDir()\<close> of the result\<close>
  os_Environ :: "string list"
  exec_StdoutPipe :: "execCmd \<Rightarrow> string option"  \<comment> \<open>the error, if any\<close>
  exec_StderrPipe :: "execCmd \<Rightarrow> string option"
  exec_Start :: "execCmd \<Rightarrow> string option"

section \<open>Configuration\<close>

text \<open>
  \<^verbatim>\<open>internal/config/config.go\<close>. \<^verbatim>\<open>ServerConfig\<close> and \<^verbatim>\<open>SecurityConfig\<close> are read by none of
  the functions modelled here and are left out. The agent's fields are prefixed, since
  \<^verbatim>\<open>Command\<close>, \<^verbatim>\<open>Args\<close> and \<^verbatim>\<open>Env\<close> name other things above.
\<close>

record WorkspaceConfig =
  DefaultRoot :: string
  BlockedPaths :: "string list"
  MaxFileSizeBytes :: int

record ExecutionConfig =
  Enabled :: bool
  TimeoutMs :: int
  Shell :: string
  NetworkAllowed :: bool
  MaxOutputBytes :: int
  CustomCommands :: "Command list"

record AgentConfig =
  AgentCommand :: string
  AgentArgs :: "string list"
  AgentEnv :: "string list"

record Config =
  Workspace :: WorkspaceConfig
  Execution :: ExecutionConfig
  Agent :: AgentConfig

text \<open>\<^verbatim>\<open>config.Default()\<close>.\<close>

definition Default :: Config where
  "Default =
    \<lparr>Workspace = \<lparr>DefaultRoot = '''',
                  BlockedPaths = [''.env'', ''*.pem'', ''*.key'', ''**/node_modules/**'',
                                  ''**/.git/objects/**''],
                  MaxFileSizeBytes = 10 * 1024 * 1024\<rparr>,
     Execution = \<lparr>Enabled = True, TimeoutMs = 30000, Shell = ''auto'', NetworkAllowed = False,
                  MaxOutputBytes = 1024 * 1024, CustomCommands = []\<rparr>,
     Agent = \<lparr>AgentCommand = '''', AgentArgs = [], AgentEnv = []\<rparr>\<rparr>"

text \<open>
  \<^verbatim>\<open>IsPathBlocked(path)\<close>: for each pattern in order, the base name and then the full path
  are tried; a pattern counts when \<^verbatim>\<open>filepath.Match\<close> reports a match and no error.
\<close>

definition IsPathBlocked :: "platform \<Rightarrow> Config \<Rightarrow> string \<Rightarrow> bool" where
  "IsPathBlocked os c path =
     list_ex (\<lambda>pattern. filepath_Match os pattern (filepath_Base os path) = Inr True
                       \<or> filepath_Match os pattern path = Inr True)
             (BlockedPaths (Workspace c))"

section \<open>Workspace guard\<close>

text \<open>
  \<^verbatim>\<open>workspace.Session\<close>: the configuration, the root and the working directory relative to
  it. The lock makes each method one atomic step on the record.
\<close>

record Session =
  config :: Config
  root :: string
  cwd :: string

definition NewSession :: "Config \<Rightarrow> Session" where
  "NewSession cfg = \<lparr>config = cfg, root = DefaultRoot (Workspace cfg), cwd = ''.''\<rparr>"

text \<open>The errors of the guard, named after their messages.\<close>

datatype guard_error =
    NoWorkspaceSet  \<comment> \<open>"no workspace set"\<close>
  | FailedToResolvePath os_error  \<comment> \<open>"failed to resolve path: ..."\<close>
  | FailedToResolveRoot os_error  \<comment> \<open>"failed to resolve workspace root: ..."\<close>
  | FailedToComputeRel string  \<comment> \<open>"failed to compute relative path: ..."\<close>
  | PathEscapes  \<comment> \<open>"path escapes workspace root"\<close>
  | PathBlocked  \<comment> \<open>"path is blocked by policy"\<close>
  | FailedToAccess os_error  \<comment> \<open>"failed to access directory: ..."\<close>
  | NotADirectory  \<comment> \<open>"path is not a directory"\<close>
  | FailedToAbs string  \<comment> \<open>"failed to resolve path: ..." of \<^verbatim>\<open>SetRoot\<close>\<close>

text \<open>\<^verbatim>\<open>SetRoot(root)\<close> returns the error, if any, and the session.\<close>

definition SetRoot :: "platform \<Rightarrow> Session \<Rightarrow> string \<Rightarrow> guard_error option \<times> Session" where
  "SetRoot os s r =
     (case filepath_Abs os r of
        Inl err \<Rightarrow> (Some (FailedToAbs err), s)
      | Inr absRoot \<Rightarrow>
          (case os_Stat os absRoot of
             Inl err \<Rightarrow> (Some (FailedToAccess err), s)
           | Inr isDir \<Rightarrow>
               if \<not> isDir then (Some NotADirectory, s)
               else (None, s\<lparr>root := absRoot, cwd := ''.''\<rparr>)))"

text \<open>
  The first half of \<^verbatim>\<open>validatePathLocked\<close>: the real path of \<^verbatim>\<open>absPath\<close>. When the path does
  not exist, the parent directory is resolved and the base name joined back on.
\<close>

definition realPathOf :: "platform \<Rightarrow> string \<Rightarrow> guard_error + string" where
  "realPathOf os absPath =
     (case filepath_EvalSymlinks os absPath of
        Inr realPath \<Rightarrow> Inr realPath
      | Inl err \<Rightarrow>
          if err = ErrNotExist
          then (let parentDir = filepath_Dir os absPath
                in case filepath_EvalSymlinks os parentDir of
                     Inl err' \<Rightarrow> Inl (FailedToResolvePath err')
                   | Inr realPath \<Rightarrow> Inr (filepath_Join os [realPath, filepath_Base os absPath]))
          else Inl (FailedToResolvePath err))"

text \<open>
  \<^verbatim>\<open>validatePathLocked(path)\<close> returns \<^verbatim>\<open>(true, nil)\<close> or \<^verbatim>\<open>(false, err)\<close>: here \<open>None\<close> or
  the error.
\<close>

definition validatePathLocked :: "platform \<Rightarrow> Session \<Rightarrow> string \<Rightarrow> guard_error option" where
  "validatePathLocked os s path =
     (if root s = '''' then Some NoWorkspaceSet
      else
        let absPath = (if filepath_IsAbs os path then path
                       else filepath_Join os [root s, cwd s, path])
        in case realPathOf os absPath of
             Inl err \<Rightarrow> Some err
           | Inr realPath \<Rightarrow>
               (case filepath_EvalSymlinks os (root s) of
                  Inl err \<Rightarrow> Some (FailedToResolveRoot err)
                | Inr realRoot \<Rightarrow>
                    (case filepath_Rel os realRoot realPath of
                       Inl err \<Rightarrow> Some (FailedToComputeRel err)
                     | Inr rel \<Rightarrow>
                         if prefix ''..'' rel then Some PathEscapes
                         else if IsPathBlocked os (config s) realPath then Some PathBlocked
                         else None)))"

definition ResolvePath :: "platform \<Rightarrow> Session \<Rightarrow> string \<Rightarrow> guard_error + string" where
  "ResolvePath os s path =
     (if root s = '''' then Inl NoWorkspaceSet
      else
        let absPath = (if filepath_IsAbs os path then path
                       else filepath_Join os [root s, cwd s, path])
        in case validatePathLocked os s absPath of
             Some err \<Rightarrow> Inl err
           | None \<Rightarrow> Inr (filepath_Clean os absPath))"

text \<open>
  \<^verbatim>\<open>Chdir(args)\<close>. \<^verbatim>\<open>args["path"].(string)\<close> is \<open>None\<close> when the key is missing or not a
  string. The result is the tool result (the error, or \<^verbatim>\<open>cwd\<close> and \<^verbatim>\<open>abs\<close>) and the session.
\<close>

datatype chdir_error =
    PathRequired  \<comment> \<open>"path is required"\<close>
  | ChdirNoWorkspace  \<comment> \<open>"no workspace set"\<close>
  | InvalidPath guard_error  \<comment> \<open>"invalid path: ..."\<close>
  | ChdirFailedToAccess os_error  \<comment> \<open>"failed to access directory: ..."\<close>
  | ChdirNotADirectory  \<comment> \<open>"path is not a directory"\<close>

definition Chdir :: "platform \<Rightarrow> Session \<Rightarrow> string option \<Rightarrow> (chdir_error + string \<times> string) \<times> Session" where
  "Chdir os s arg =
     (case arg of
        None \<Rightarrow> (Inl PathRequired, s)
      | Some pathArg \<Rightarrow>
          if root s = '''' then (Inl ChdirNoWorkspace, s)
          else
            let newCwd = (if filepath_IsAbs os pathArg then pathArg
                          else filepath_Join os [cwd s, pathArg]);
                absPath = filepath_Join os [root s, newCwd]
            in (case validatePathLocked os s absPath of
                  Some err \<Rightarrow> (Inl (InvalidPath err), s)
                | None \<Rightarrow>
                    (case os_Stat os absPath of
                       Inl err \<Rightarrow> (Inl (ChdirFailedToAccess err), s)
                     | Inr isDir \<Rightarrow>
                         if \<not> isDir then (Inl ChdirNotADirectory, s)
                         else (Inr (filepath_Clean os newCwd, absPath),
                               s\<lparr>cwd := filepath_Clean os newCwd\<rparr>))))"

section \<open>A Unix file system\<close>

text \<open>
  A model of the platform calls on Unix, for running the functions above on concrete
  inputs. A path is split into its components; the file system maps the absolute, clean
  path of each entry to what is there. The root directory always exists.
\<close>

datatype node = Directory | RegularFile | Symlink string

type_synonym filesystem = "(string \<times> node) list"

fun splitFrom :: "string \<Rightarrow> string \<Rightarrow> string list" where
  "splitFrom cur [] = (if cur = [] then [] else [cur])"
| "splitFrom cur (c # cs) =
     (if c = CHR ''/'' then (if cur = [] then [] else [cur]) @ splitFrom [] cs
      else splitFrom (cur @ [c]) cs)"

text \<open>The non-empty components of a path, and a path from components.\<close>

definition components :: "string \<Rightarrow> string list" where
  "components p = splitFrom [] p"

definition joinComps :: "string list \<Rightarrow> string" where
  "joinComps cs = strings_Join cs ''/''"

definition unix_IsAbs :: "string \<Rightarrow> bool" where
  "unix_IsAbs p = prefix ''/'' p"

text \<open>
  \<^verbatim>\<open>filepath.Clean\<close>: drop empty and \<^verbatim>\<open>.\<close> components; \<^verbatim>\<open>..\<close> removes the component before it,
  is dropped at the root of a rooted path, and is kept at the start of a relative one.
\<close>

definition cleanStep :: "bool \<Rightarrow> string list \<Rightarrow> string \<Rightarrow> string list" where
  "cleanStep rooted out c =
     (if c = ''.'' then out
      else if c = ''..''
           then (if out \<noteq> [] \<and> last out \<noteq> ''..'' then butlast out
                 else if rooted then out else out @ [''..''])
      else out @ [c])"

definition unix_Clean :: "string \<Rightarrow> string" where
  "unix_Clean p =
     (let rooted = unix_IsAbs p; out = foldl (cleanStep rooted) [] (components p)
      in if rooted then ''/'' @ joinComps out
         else if out = [] then ''.'' else joinComps out)"

text \<open>\<^verbatim>\<open>filepath.Join\<close>: from the first non-empty element on, joined with \<^verbatim>\<open>/\<close> and cleaned.\<close>

definition unix_Join :: "string list \<Rightarrow> string" where
  "unix_Join elem =
     (let es = dropWhile (\<lambda>e. e = []) elem
      in if es = [] then [] else unix_Clean (strings_Join es ''/''))"

definition unix_Dir :: "string \<Rightarrow> string" where
  "unix_Dir p = unix_Clean (rev (dropWhile (\<lambda>c. c \<noteq> CHR ''/'') (rev p)))"

definition unix_Base :: "string \<Rightarrow> string" where
  "unix_Base p =
     (if p = [] then ''.''
      else let stripped = rev (dropWhile (\<lambda>c. c = CHR ''/'') (rev p));
               b = rev (takeWhile (\<lambda>c. c \<noteq> CHR ''/'') (rev stripped))
           in if b = [] then ''/'' else b)"

fun stripCommon :: "string list \<Rightarrow> string list \<Rightarrow> string list \<times> string list" where
  "stripCommon (b # bs) (t # ts) = (if b = t then stripCommon bs ts else (b # bs, t # ts))"
| "stripCommon bs ts = (bs, ts)"

definition unix_Rel :: "string \<Rightarrow> string \<Rightarrow> string + string" where
  "unix_Rel basepath targpath =
     (let base = unix_Clean basepath; targ = unix_Clean targpath
      in if targ = base then Inr ''.''
         else
           let base' = (if base = ''.'' then [] else base)
           in if unix_IsAbs base' \<noteq> unix_IsAbs targ then Inl ''Rel: can't make relative''
              else
                (case stripCommon (components base') (components targ) of
                   (bs, ts) \<Rightarrow>
                     if bs \<noteq> [] \<and> hd bs = ''..'' then Inl ''Rel: can't make relative''
                     else if bs \<noteq> [] then Inr (joinComps (map (\<lambda>_. ''..'') bs @ ts))
                     else Inr (joinComps ts)))"

definition unix_Abs :: "string \<Rightarrow> string \<Rightarrow> string + string" where
  "unix_Abs wd p = Inr (if unix_IsAbs p then unix_Clean p else unix_Join [wd, p])"

text \<open>
  \<^verbatim>\<open>filepath.Match\<close> for patterns of literal bytes, \<^verbatim>\<open>?\<close> and \<^verbatim>\<open>*\<close>, neither of which
  matches a separator. Character classes and escapes are not modelled: a pattern with
  \<^verbatim>\<open>[\<close> or a backslash is reported as an error here.
\<close>

fun globMatch :: "string \<Rightarrow> string \<Rightarrow> bool" where
  "globMatch [] n = (n = [])"
| "globMatch (p # ps) [] = (p = CHR ''*'' \<and> globMatch ps [])"
| "globMatch (p # ps) (c # cs) =
     (if p = CHR ''*'' then globMatch ps (c # cs) \<or> (c \<noteq> CHR ''/'' \<and> globMatch (p # ps) cs)
      else if p = CHR ''?'' then c \<noteq> CHR ''/'' \<and> globMatch ps cs
      else c = p \<and> globMatch ps cs)"

definition unix_Match :: "string \<Rightarrow> string \<Rightarrow> string + bool" where
  "unix_Match pattern name =
     (if CHR ''['' \<in> set pattern \<or> CHR 0x5C \<in> set pattern then Inl ''pattern not modelled''
      else Inr (globMatch pattern name))"

text \<open>What is at the path with the given components.\<close>

definition lstat :: "filesystem \<Rightarrow> string list \<Rightarrow> node option" where
  "lstat fs comps = (if comps = [] then Some Directory else map_of fs (''/'' @ joinComps comps))"

text \<open>
  \<^verbatim>\<open>filepath.EvalSymlinks\<close> walks the path component by component. \<^verbatim>\<open>dest\<close> is the resolved
  path so far: \<^verbatim>\<open>.\<close> is skipped, \<^verbatim>\<open>..\<close> drops the last component of \<^verbatim>\<open>dest\<close>, any other
  component is added and looked up; a symbolic link is replaced by its target, which
  restarts at the root when absolute, and at most 255 links are followed.
\<close>

function walkSymlinks :: "filesystem \<Rightarrow> nat \<Rightarrow> string list \<Rightarrow> string list \<Rightarrow> os_error + string list" where
  "walkSymlinks fs links dest [] = Inr dest"
| "walkSymlinks fs links dest (c # rest) =
     (if c = ''.'' then walkSymlinks fs links dest rest
      else if c = ''..'' then walkSymlinks fs links (butlast dest) rest
      else
        (case lstat fs (dest @ [c]) of
           None \<Rightarrow> Inl ErrNotExist
         | Some Directory \<Rightarrow> walkSymlinks fs links (dest @ [c]) rest
         | Some RegularFile \<Rightarrow>
             if rest \<noteq> [] then Inl ErrOther else walkSymlinks fs links (dest @ [c]) rest
         | Some (Symlink target) \<Rightarrow>
             if links = 0 then Inl ErrOther
             else walkSymlinks fs (links - 1)
                    (if unix_IsAbs target then [] else dest) (components target @ rest)))"
  by pat_completeness auto
termination
  by (relation "measures [\<lambda>(fs, links, dest, rest). links, \<lambda>(fs, links, dest, rest). length rest]")
     auto

text \<open>Only absolute paths are modelled; a relative one is reported as an error.\<close>

definition unix_EvalSymlinks :: "filesystem \<Rightarrow> string \<Rightarrow> os_error + string" where
  "unix_EvalSymlinks fs p =
     (if \<not> unix_IsAbs p then Inl ErrOther
      else case walkSymlinks fs 255 [] (components p) of
             Inl err \<Rightarrow> Inl err
           | Inr dest \<Rightarrow> Inr (''/'' @ joinComps dest))"

text \<open>\<^verbatim>\<open>os.Stat\<close> follows symbolic links and reports whether a directory is there.\<close>

definition unix_Stat :: "filesystem \<Rightarrow> string \<Rightarrow> os_error + bool" where
  "unix_Stat fs p =
     (case unix_EvalSymlinks fs p of
        Inl err \<Rightarrow> Inl err
      | Inr real \<Rightarrow>
          (case lstat fs (components real) of
             None \<Rightarrow> Inl ErrNotExist
           | Some n \<Rightarrow> Inr (n = Directory)))"

text \<open>
  The platform over a file system, with the process in directory \<^verbatim>\<open>wd\<close>; pipes and
  process starts succeed.
\<close>

definition unix :: "filesystem \<Rightarrow> string \<Rightarrow> platform" where
  "unix fs wd =
    \<lparr>windows = False,
     filepath_IsAbs = unix_IsAbs,
     filepath_Clean = unix_Clean,
     filepath_Join = unix_Join,
     filepath_Dir = unix_Dir,
     filepath_Base = unix_Base,
     filepath_Rel = unix_Rel,
     filepath_Abs = unix_Abs wd,
     filepath_Match = unix_Match,
     filepath_EvalSymlinks = unix_EvalSymlinks fs,
     os_Stat = unix_Stat fs,
     os_Environ = [],
     exec_StdoutPipe = (\<lambda>_. None),
     exec_StderrPipe = (\<lambda>_. None),
     exec_Start = (\<lambda>_. None)\<rparr>"

section \<open>Terminal manager: creating a terminal\<close>

text \<open>
  \<^verbatim>\<open>terminalProcess\<close>. The cancel function and the \<^verbatim>\<open>done\<close> channel belong to the running
  process and its supervisor, which are not modelled; the exit fields are unset at
  creation.
\<close>

record terminalProcess =
  id' :: string
  cmd :: execCmd
  output_buf :: cappedBuffer
  exitCode :: "int option"
  signal :: "string option"

text \<open>
  \<^verbatim>\<open>TerminalManager\<close>. \<^verbatim>\<open>session\<close> is the workspace session the pointer refers to, as it is
  when a method runs; \<^verbatim>\<open>terminals\<close> is the map from terminal id to process.
\<close>

record TerminalManager =
  tm_config :: Config
  session :: Session
  commands :: "Command list"
  terminals :: "(string \<times> terminalProcess) list"
  nextID :: int

definition NewTerminalManager :: "platform \<Rightarrow> Config \<Rightarrow> Session \<Rightarrow> TerminalManager" where
  "NewTerminalManager os cfg sess =
     \<lparr>tm_config = cfg, session = sess,
      commands = DefaultCommands (windows os) @ CustomCommands (Execution cfg),
      terminals = [], nextID = 0\<rparr>"

text \<open>The sixteen one-byte strings of \<^verbatim>\<open>containsShellMeta\<close>, in its order:
  \<^verbatim>\<open>; & | ` $ ( ) { } < > ' " \ LF CR\<close>.\<close>

definition metaChars :: "string list" where
  "metaChars =
    [[CHR 0x3B], [CHR 0x26], [CHR 0x7C], [CHR 0x60], [CHR 0x24], [CHR 0x28], [CHR 0x29],
     [CHR 0x7B], [CHR 0x7D], [CHR 0x3C], [CHR 0x3E], [CHR 0x27], [CHR 0x22], [CHR 0x5C],
     [CHR 0x0A], [CHR 0x0D]]"

definition containsShellMeta :: "string \<Rightarrow> bool" where
  "containsShellMeta s = list_ex (\<lambda>meta. Contains s meta) metaChars"

definition isAbsPath :: "platform \<Rightarrow> string \<Rightarrow> bool" where
  "isAbsPath os path =
     (if windows os
      then prefix [CHR 0x5C, CHR 0x5C] path \<or> (length path > 1 \<and> path ! 1 = CHR '':'')
      else prefix ''/'' path)"

text \<open>
  \<^verbatim>\<open>buildShellCommand(ctx, shell, command)\<close>: \<^verbatim>\<open>exec.CommandContext(ctx, name, arg...)\<close> with
  the program name as the path and as the first argument.
\<close>

definition CommandContext :: "string \<Rightarrow> string list \<Rightarrow> execCmd" where
  "CommandContext name arg = \<lparr>cmd_Path = name, cmd_Args = name # arg, cmd_Dir = '''', cmd_Env = []\<rparr>"

definition buildShellCommand :: "platform \<Rightarrow> string \<Rightarrow> string \<Rightarrow> execCmd" where
  "buildShellCommand os shell command =
     (if windows os
      then (let shell' = (if shell = ''auto'' \<or> shell = '''' then ''powershell'' else shell)
            in if shell' = ''powershell''
               then CommandContext ''powershell''
                      [''-NoProfile'', ''-NonInteractive'', ''-Command'', command]
               else if shell' = ''cmd'' then CommandContext ''cmd'' [''/c'', command]
               else CommandContext shell' [''-c'', command])
      else (let shell' = (if shell = ''auto'' \<or> shell = '''' then ''sh'' else shell)
            in CommandContext shell' [''-c'', command]))"

text \<open>\<^verbatim>\<open>fmt.Sprintf("%d", n)\<close>.\<close>

fun decimal :: "nat \<Rightarrow> string" where
  "decimal n =
     (if n < 10 then [''0123456789'' ! n]
      else decimal (n div 10) @ [''0123456789'' ! (n mod 10)])"

declare decimal.simps [simp del]

definition Sprintf_d :: "int \<Rightarrow> string" where
  "Sprintf_d i = (if i < 0 then ''-'' @ decimal (nat (- i)) else decimal (nat i))"

text \<open>
  Lines 112 to 118 of \<^verbatim>\<open>Create\<close>: the limit of the output buffer, from the configured
  \<^verbatim>\<open>MaxOutputBytes\<close> and the \<^verbatim>\<open>outputLimit\<close> of the call.
\<close>

definition bufferLimit :: "int \<Rightarrow> int \<Rightarrow> int" where
  "bufferLimit maxOutputBytes outputLimit =
     (let limit0 = maxOutputBytes;
          limit1 = (if outputLimit > 0 \<and> outputLimit < limit0 then outputLimit else limit0)
      in if limit1 \<le> 0 then 1024 * 1024 else limit1)"

text \<open>The errors of \<^verbatim>\<open>Create\<close>, named after their messages.\<close>

datatype create_error =
    ExecutionDisabled  \<comment> \<open>"terminal execution disabled"\<close>
  | AllowlistError string  \<comment> \<open>the error of \<^verbatim>\<open>matchAllowlist\<close>, passed on\<close>
  | DisallowedCharacters string  \<comment> \<open>"argument %q contains disallowed characters"\<close>
  | WorkspaceRootNotSet  \<comment> \<open>"workspace root not set"\<close>
  | CwdMustBeAbsolute  \<comment> \<open>"cwd must be absolute"\<close>
  | InvalidCwd guard_error  \<comment> \<open>"invalid cwd: ..."\<close>
  | StdoutPipeError string  \<comment> \<open>"stdout pipe: ..."\<close>
  | StderrPipeError string  \<comment> \<open>"stderr pipe: ..."\<close>
  | StartError string  \<comment> \<open>"start command: ..."\<close>

text \<open>
  \<^verbatim>\<open>Create(command, args, cwd, outputLimit)\<close> returns the terminal id or the error, the
  manager, and the processes it started: \<^verbatim>\<open>cmd.Start()\<close> is the one place where a process
  is spawned. The goroutines that copy the output and wait for the exit run after the
  return and are not modelled. \<^verbatim>\<open>nextID\<close> is an \<^verbatim>\<open>int64\<close> that counts terminals from 0 and
  is modelled as an integer.
\<close>

definition Create ::
  "platform \<Rightarrow> TerminalManager \<Rightarrow> string \<Rightarrow> string list \<Rightarrow> string \<Rightarrow> int
     \<Rightarrow> (create_error + string) \<times> TerminalManager \<times> execCmd list" where
  "Create os m command args cwd0 outputLimit =
     (if \<not> Enabled (Execution (tm_config m)) then (Inl ExecutionDisabled, m, [])
      else
        case matchAllowlist (commands m) command args of
          Inl err \<Rightarrow> (Inl (AllowlistError err), m, [])
        | Inr (cmdDef, extraArgs) \<Rightarrow>
            (case find containsShellMeta extraArgs of
               Some arg \<Rightarrow> (Inl (DisallowedCharacters arg), m, [])
             | None \<Rightarrow>
                 let fullCmd = (if length extraArgs > 0
                                then Template cmdDef @ '' '' @ strings_Join extraArgs '' ''
                                else Template cmdDef);
                     cwd1 = (if cwd0 = '''' then root (session m) else cwd0)
                 in if cwd1 = '''' then (Inl WorkspaceRootNotSet, m, [])
                    else if \<not> isAbsPath os cwd1 then (Inl CwdMustBeAbsolute, m, [])
                    else
                      (case ResolvePath os (session m) cwd1 of
                         Inl err \<Rightarrow> (Inl (InvalidCwd err), m, [])
                       | Inr absCwd \<Rightarrow>
                           let limit' = bufferLimit (MaxOutputBytes (Execution (tm_config m)))
                                          outputLimit;
                               c = (buildShellCommand os (Shell (Execution (tm_config m))) fullCmd)
                                     \<lparr>cmd_Dir := absCwd, cmd_Env := os_Environ os @ Env cmdDef\<rparr>
                           in (case exec_StdoutPipe os c of
                                 Some err \<Rightarrow> (Inl (StdoutPipeError err), m, [])
                               | None \<Rightarrow>
                                   (case exec_StderrPipe os c of
                                      Some err \<Rightarrow> (Inl (StderrPipeError err), m, [])
                                    | None \<Rightarrow>
                                        (case exec_Start os c of
                                           Some err \<Rightarrow> (Inl (StartError err), m, [])
                                         | None \<Rightarrow>
                                             let termID = ''term_'' @ Sprintf_d (nextID m + 1);
                                                 proc = \<lparr>id' = termID, cmd = c,
                                                         output_buf = newCappedBuffer limit',
                                                         exitCode = None, signal = None\<rparr>
                                             in (Inr termID,
                                                 m\<lparr>nextID := nextID m + 1,
                                                   terminals := AList.update termID proc (terminals m)\<rparr>,
                                                 [c])))))))"

section \<open>A concrete workspace\<close>

text \<open>
  The file system, platform, session and terminal manager that the concrete runs below
  use: a workspace \<^verbatim>\<open>/ws\<close> holding a directory \<^verbatim>\<open>in/deep\<close>, a symbolic link \<^verbatim>\<open>link\<close> to it and
  a file \<^verbatim>\<open>etc/passwd\<close> of its own, beside the system's \<^verbatim>\<open>/etc/passwd\<close>.
\<close>

definition example_fs :: filesystem where
  "example_fs =
     [(''/ws'', Directory), (''/ws/in'', Directory), (''/ws/in/deep'', Directory),
      (''/ws/link'', Symlink ''in/deep''), (''/ws/etc'', Directory),
      (''/ws/etc/passwd'', RegularFile), (''/etc'', Directory), (''/etc/passwd'', RegularFile)]"

definition example_os :: platform where
  "example_os = unix example_fs ''/''"

definition example_session :: Session where
  "example_session = \<lparr>config = Default, root = ''/ws'', cwd = ''.''\<rparr>"

definition example_manager :: TerminalManager where
  "example_manager = NewTerminalManager example_os Default example_session"

text \<open>The same manager under a configuration that sets \<^verbatim>\<open>max_output_bytes: 0\<close>.\<close>

definition example_manager_unset :: TerminalManager where
  "example_manager_unset =
     example_manager\<lparr>tm_config := Default\<lparr>Execution := (Execution Default)\<lparr>MaxOutputBytes := 0\<rparr>\<rparr>\<rparr>"

section \<open>Line framing\<close>

text \<open>\<^verbatim>\<open>internal/acp/stdio.go\<close>: one JSON-RPC message per line.\<close>

definition MaxMessageSize :: int where
  "MaxMessageSize = 1024 * 1024"

abbreviation LF :: char where "LF \<equiv> CHR 0x0A"

abbreviation CR :: char where "CR \<equiv> CHR 0x0D"

text \<open>
  A \<^verbatim>\<open>bufio.Reader\<close> over a byte stream: the bytes not yet read and how the stream ends,
  with \<^verbatim>\<open>io.EOF\<close> or with another error.
\<close>

datatype io_error = io_EOF | io_Other string

record bufio_Reader =
  unread :: bytes
  ending :: io_error

text \<open>
  \<^verbatim>\<open>r.ReadBytes('\n')\<close> returns the bytes up to and including the first LF, or all the
  bytes left together with the error that ends the stream.
\<close>

definition ReadBytes :: "bufio_Reader \<Rightarrow> (bytes \<times> io_error option) \<times> bufio_Reader" where
  "ReadBytes r =
     (if LF \<in> set (unread r)
      then ((takeWhile (\<lambda>c. c \<noteq> LF) (unread r) @ [LF], None),
            r\<lparr>unread := tl (dropWhile (\<lambda>c. c \<noteq> LF) (unread r))\<rparr>)
      else ((unread r, Some (ending r)), r\<lparr>unread := []\<rparr>))"

text \<open>
  The errors of \<^verbatim>\<open>ReadLineMessage\<close>: the error of the read itself, handed on as it is
  (\<^verbatim>\<open>io.EOF\<close>); "read message: ..."; "message contains embedded newline"; and "message
  length ... exceeds maximum ...".
\<close>

datatype read_error =
    HandedOn io_error
  | ReadMessage io_error
  | EmbeddedNewline
  | TooLong nat

text \<open>
  \<^verbatim>\<open>ReadLineMessage(r)\<close> returns the message or the error, and the reader. The \<^verbatim>\<open>for\<close> loop
  goes round again (\<^verbatim>\<open>continue\<close>) on a line that is blank after trimming. \<^verbatim>\<open>return nil, err\<close>
  on an empty read hands on whatever \<^verbatim>\<open>err\<close> is; were it \<^verbatim>\<open>nil\<close>, the result would be an
  empty message.
\<close>

function ReadLineMessage :: "bufio_Reader \<Rightarrow> (read_error + bytes) \<times> bufio_Reader" where
  "ReadLineMessage r =
     (case ReadBytes r of
        ((line, err), r') \<Rightarrow>
          if err \<noteq> None \<and> err \<noteq> Some io_EOF
          then (case err of Some e \<Rightarrow> (Inl (ReadMessage e), r') | None \<Rightarrow> (Inr [], r'))
          else if length line = 0
          then (case err of Some e \<Rightarrow> (Inl (HandedOn e), r') | None \<Rightarrow> (Inr [], r'))
          else
            let line1 = (if last line = LF then butlast line else line);
                line2 = (if length line1 > 0 \<and> last line1 = CR then butlast line1 else line1);
                trimmed = TrimSpace line2
            in if length trimmed = 0
               then (if err = Some io_EOF then (Inl (HandedOn io_EOF), r')
                     else ReadLineMessage r')
               else if Contains trimmed [LF] then (Inl EmbeddedNewline, r')
               else if int (length trimmed) > MaxMessageSize then (Inl (TooLong (length trimmed)), r')
               else (Inr trimmed, r'))"
  by pat_completeness auto
termination
proof (relation "measure (\<lambda>r. length (unread r))")
  show "wf (measure (\<lambda>r. length (unread r)))" by simp
next
  fix r :: bufio_Reader and x line err r'
  assume rb: "(line, err) = x" "(x, r') = ReadBytes r"
    and e1: "\<not> (err \<noteq> None \<and> err \<noteq> Some io_EOF)"
    and e2: "err \<noteq> Some io_EOF"
  from e1 e2 have "err = None" by auto
  with rb have lf: "LF \<in> set (unread r)"
    and r': "unread r' = tl (dropWhile (\<lambda>c. c \<noteq> LF) (unread r))"
    by (auto simp add: ReadBytes_def split: if_splits)
  from lf have "dropWhile (\<lambda>c. c \<noteq> LF) (unread r) \<noteq> []" by simp
  then have "length (tl (dropWhile (\<lambda>c. c \<noteq> LF) (unread r)))
               < length (dropWhile (\<lambda>c. c \<noteq> LF) (unread r))"
    by (cases "dropWhile (\<lambda>c. c \<noteq> LF) (unread r)") auto
  also have "\<dots> \<le> length (unread r)" by (rule length_dropWhile_le)
  finally show "(r', r) \<in> measure (\<lambda>r. length (unread r))" using r' by simp
qed

declare ReadLineMessage.simps [simp del]

text \<open>
  An \<^verbatim>\<open>io.Writer\<close>: the bytes written so far, and the error its \<^verbatim>\<open>Write\<close> returns, if it
  fails; a failing write is taken to write nothing.
\<close>

record io_Writer =
  written :: bytes
  fault :: "string option"

text \<open>
  The errors of \<^verbatim>\<open>WriteLineMessage\<close>: "message is empty", "message contains embedded
  newline", "message length ... exceeds maximum ..." and "write message: ...".
\<close>

datatype write_error =
    MessageEmpty
  | WriteEmbeddedNewline
  | WriteTooLong nat
  | WriteMessage string

definition WriteLineMessage :: "io_Writer \<Rightarrow> bytes \<Rightarrow> write_error option \<times> io_Writer" where
  "WriteLineMessage w data =
     (if length data = 0 then (Some MessageEmpty, w)
      else if Contains data [LF] then (Some WriteEmbeddedNewline, w)
      else if int (length data) > MaxMessageSize then (Some (WriteTooLong (length data)), w)
      else (case fault w of
              Some err \<Rightarrow> (Some (WriteMessage err), w)
            | None \<Rightarrow> (None, w\<lparr>written := written w @ data @ [LF]\<rparr>)))"

section \<open>JSON-RPC messages\<close>

text \<open>
  \<^verbatim>\<open>json.RawMessage\<close> is a byte slice, \<open>[]\<close> standing for \<^verbatim>\<open>nil\<close>. Decoded JSON, and the Go
  maps and values that the broker marshals, are trees; an object lists its members, and a
  member is looked up with \<^const>\<open>map_of\<close>.
\<close>

type_synonym RawMessage = bytes

datatype json =
    JNull
  | JBool bool
  | JNumber int
  | JString string
  | JArray "json list"
  | JObject "(string \<times> json) list"

text \<open>
  What a handler stores in the \<^verbatim>\<open>Result interface{}\<close> of a response: \<^verbatim>\<open>nil\<close>, a Go value
  (given as the JSON it marshals to), or raw JSON handed through.
\<close>

datatype any = Absent | Go json | RawJSON RawMessage

definition JSONRPCVersion :: string where "JSONRPCVersion = ''2.0''"

definition ErrParse :: int where "ErrParse = - 32700"

definition ErrInvalidReq :: int where "ErrInvalidReq = - 32600"

definition ErrMethodNotFound :: int where "ErrMethodNotFound = - 32601"

definition ErrInvalidParams :: int where "ErrInvalidParams = - 32602"

definition ErrInternal :: int where "ErrInternal = - 32603"

text \<open>
  \<^verbatim>\<open>RPCError\<close>. Where the code formats an error of the guard into the message
  (\<^verbatim>\<open>fmt.Sprintf("invalid cwd: %v", err)\<close>), \<^verbatim>\<open>Message\<close> holds the text before it and
  \<^verbatim>\<open>Cause\<close> the error. \<^verbatim>\<open>Data\<close> is never set.
\<close>

record RPCError =
  Code :: int
  Message :: string
  Cause :: "guard_error option"

record RPCMessage =
  msg_JSONRPC :: string
  msg_ID :: RawMessage
  msg_Method :: string
  msg_Params :: RawMessage
  msg_Result :: RawMessage
  msg_Error :: "RPCError option"

record RPCResponse =
  resp_JSONRPC :: string
  resp_ID :: RawMessage
  resp_Result :: any
  resp_Error :: "RPCError option"

definition NewErrorResponse :: "RawMessage \<Rightarrow> int \<Rightarrow> string \<Rightarrow> RPCResponse" where
  "NewErrorResponse i code message =
     \<lparr>resp_JSONRPC = JSONRPCVersion, resp_ID = i, resp_Result = Absent,
      resp_Error = Some \<lparr>Code = code, Message = message, Cause = None\<rparr>\<rparr>"

definition NewResultResponse :: "RawMessage \<Rightarrow> any \<Rightarrow> RPCResponse" where
  "NewResultResponse i result =
     \<lparr>resp_JSONRPC = JSONRPCVersion, resp_ID = i, resp_Result = result, resp_Error = None\<rparr>"

text \<open>
  What a handler returns, \<^verbatim>\<open>(*RPCResponse, error)\<close>: the response, if any, and the error, if
  any. The read loop turns an error into an internal-error response.
\<close>

type_synonym handler_result = "RPCResponse option \<times> string option"

text \<open>
  A \<^verbatim>\<open>Conn\<close>, seen from a handler that calls the peer: what \<^verbatim>\<open>Call\<close> and \<^verbatim>\<open>CallRaw\<close> return for
  a method and its parameters, the response (or \<^verbatim>\<open>nil\<close>) and the error (or \<^verbatim>\<open>nil\<close>).
\<close>

record Conn =
  Call :: "string \<Rightarrow> json \<Rightarrow> RPCMessage option \<times> string option"
  CallRaw :: "string \<Rightarrow> RawMessage \<Rightarrow> RPCMessage option \<times> string option"

section \<open>Decoded parameters\<close>

text \<open>
  The structs the handlers decode parameters into. A field the JSON leaves out keeps its
  zero value. The four terminal methods other than \<^verbatim>\<open>terminal/create\<close> declare the same
  struct.
\<close>

record sessionNewParams =
  Cwd :: string

record sessionParams =
  SessionID :: string

record fsPathParams = sessionParams +
  Path :: string

record fsReadParams = fsPathParams +
  Line :: int
  Limit :: int

record fsWriteParams = fsPathParams +
  Content :: string

record terminalCreateParams = sessionParams +
  tc_Command :: string
  tc_Args :: "string list"
  tc_Cwd :: string
  OutputByteLimit :: int

record terminalParams = sessionParams +
  TerminalID :: string

text \<open>
  \<^verbatim>\<open>json.Unmarshal\<close>, for each type the broker decodes into: \<open>None\<close> is an error. The
  handlers are modelled over any decoder.
\<close>

record json_decoders =
  Unmarshal_any :: "RawMessage \<Rightarrow> json option"
  Unmarshal_sessionNewParams :: "RawMessage \<Rightarrow> sessionNewParams option"
  Unmarshal_sessionResult :: "RawMessage \<Rightarrow> string option"
  Unmarshal_fsReadParams :: "RawMessage \<Rightarrow> fsReadParams option"
  Unmarshal_fsWriteParams :: "RawMessage \<Rightarrow> fsWriteParams option"
  Unmarshal_terminalCreateParams :: "RawMessage \<Rightarrow> terminalCreateParams option"
  Unmarshal_terminalParams :: "RawMessage \<Rightarrow> terminalParams option"

section \<open>Broker: state\<close>

text \<open>
  \<^verbatim>\<open>acp.Session\<close> and \<^verbatim>\<open>Runner\<close>. The child process and the channel of the read loop are
  not modelled; \<^verbatim>\<open>fsTools\<close> is determined by the configuration and the workspace. What
  \<^verbatim>\<open>spawnFunc\<close> returns when it is called is an argument of the handler that calls it.
\<close>

record acp_Session =
  session_id :: string
  downstream :: Conn
  workspace :: Session
  terminal :: TerminalManager

record Runner =
  cfg :: Config
  upstream :: "Conn option"
  sessions :: "(string \<times> acp_Session) list"
  cachedCaps :: "(string \<times> json) list option"

definition NewRunner :: "Config \<Rightarrow> Runner" where
  "NewRunner c = \<lparr>cfg = c, upstream = None, sessions = [], cachedCaps = None\<rparr>"

section \<open>Broker: capabilities\<close>

definition defaultProtocolVersion :: int where "defaultProtocolVersion = 1"

definition runnerName :: string where "runnerName = ''tldw-agent-runner''"

definition runnerVersion :: string where "runnerVersion = ''0.1.0''"

definition defaultAgentCapabilities :: "(string \<times> json) list" where
  "defaultAgentCapabilities =
     [(''loadSession'', JBool False),
      (''promptCapabilities'',
         JObject [(''image'', JBool False), (''audio'', JBool False),
                  (''embeddedContext'', JBool False)]),
      (''mcpCapabilities'', JObject [(''http'', JBool False), (''sse'', JBool False)]),
      (''sessionCapabilities'', JObject [])]"

text \<open>
  \<^verbatim>\<open>parseAgentCapabilities(raw)\<close>: \<^verbatim>\<open>nil\<close> for a \<^verbatim>\<open>nil\<close> message, for one that does not decode
  into a map, and for a map whose \<^verbatim>\<open>agentCapabilities\<close> is not an object; a JSON \<^verbatim>\<open>null\<close>
  decodes into the \<^verbatim>\<open>nil\<close> map. The legacy key \<^verbatim>\<open>mcp\<close> stands in for a missing
  \<^verbatim>\<open>mcpCapabilities\<close> when it is an object.
\<close>

definition parseAgentCapabilities :: "json_decoders \<Rightarrow> RawMessage \<Rightarrow> (string \<times> json) list option" where
  "parseAgentCapabilities dec raw =
     (if raw = [] then None
      else
        case Unmarshal_any dec raw of
          Some (JObject payload) \<Rightarrow>
            (case map_of payload ''agentCapabilities'' of
               Some (JObject caps) \<Rightarrow>
                 if map_of caps ''mcpCapabilities'' = None
                 then (case map_of caps ''mcp'' of
                         Some (JObject legacy) \<Rightarrow>
                           Some (AList.update ''mcpCapabilities'' (JObject legacy) caps)
                       | _ \<Rightarrow> Some caps)
                 else Some caps
             | _ \<Rightarrow> None)
        | _ \<Rightarrow> None)"

definition getCachedCapabilities :: "Runner \<Rightarrow> (string \<times> json) list option" where
  "getCachedCapabilities r = cachedCaps r"

definition updateCachedCapabilities :: "json_decoders \<Rightarrow> Runner \<Rightarrow> RawMessage \<Rightarrow> Runner" where
  "updateCachedCapabilities dec r raw =
     (case parseAgentCapabilities dec raw of
        None \<Rightarrow> r
      | Some caps \<Rightarrow> r\<lparr>cachedCaps := Some caps\<rparr>)"

text \<open>The parameters of the \<^verbatim>\<open>initialize\<close> request the broker sends downstream.\<close>

definition initParams :: "Config \<Rightarrow> json" where
  "initParams c =
     JObject
       [(''protocolVersion'', JNumber defaultProtocolVersion),
        (''clientCapabilities'',
           JObject [(''fs'', JObject [(''readTextFile'', JBool True),
                                      (''writeTextFile'', JBool True)]),
                    (''terminal'', JBool (Enabled (Execution c)))]),
        (''clientInfo'',
           JObject [(''name'', JString runnerName), (''title'', JString ''TLDW ACP Runner''),
                    (''version'', JString runnerVersion)])]"

text \<open>
  \<^verbatim>\<open>refreshCapabilities()\<close>: spawn a downstream, ask it to \<^verbatim>\<open>initialize\<close>, and cache what it
  reports. It returns the capabilities, or \<^verbatim>\<open>nil\<close>, and the runner.
\<close>

definition refreshCapabilities ::
  "json_decoders \<Rightarrow> Runner \<Rightarrow> string + Conn \<Rightarrow> (string \<times> json) list option \<times> Runner" where
  "refreshCapabilities dec r spawn =
     (case spawn of
        Inl err \<Rightarrow> (None, r)
      | Inr down \<Rightarrow>
          (case Call down ''initialize'' (initParams (cfg r)) of
             (resp, err) \<Rightarrow>
               if err \<noteq> None \<or> resp = None then (None, r)
               else
                 (case resp of
                    None \<Rightarrow> (None, r)
                  | Some m \<Rightarrow>
                      if msg_Error m \<noteq> None then (None, r)
                      else
                        (case parseAgentCapabilities dec (msg_Result m) of
                           None \<Rightarrow> (None, r)
                         | Some caps \<Rightarrow> (Some caps, r\<lparr>cachedCaps := Some caps\<rparr>)))))"

text \<open>
  \<^verbatim>\<open>buildAgentCapabilities()\<close>: the defaults when there is nothing cached and nothing to
  refresh from; otherwise a copy of the defaults with the three cached sub-objects put in
  and \<^verbatim>\<open>loadSession\<close> set to false.
\<close>

definition buildAgentCapabilities ::
  "json_decoders \<Rightarrow> Runner \<Rightarrow> string + Conn \<Rightarrow> (string \<times> json) list \<times> Runner" where
  "buildAgentCapabilities dec r spawn =
     (let base = defaultAgentCapabilities;
          (cached, r') = (case getCachedCapabilities r of
                            None \<Rightarrow> refreshCapabilities dec r spawn
                          | Some c \<Rightarrow> (Some c, r))
      in case cached of
           None \<Rightarrow> (base, r')
         | Some c \<Rightarrow>
             let merged0 = base;
                 merged1 = (case map_of c ''promptCapabilities'' of
                              Some promptCaps \<Rightarrow> AList.update ''promptCapabilities'' promptCaps merged0
                            | None \<Rightarrow> merged0);
                 merged2 = (case map_of c ''mcpCapabilities'' of
                              Some mcpCaps \<Rightarrow> AList.update ''mcpCapabilities'' mcpCaps merged1
                            | None \<Rightarrow> merged1);
                 merged3 = (case map_of c ''sessionCapabilities'' of
                              Some sessionCaps \<Rightarrow> AList.update ''sessionCapabilities'' sessionCaps merged2
                            | None \<Rightarrow> merged2)
             in (AList.update ''loadSession'' (JBool False) merged3, r'))"

text \<open>The result of the upstream \<^verbatim>\<open>initialize\<close>, around the capabilities.\<close>

definition initializeResult :: "(string \<times> json) list \<Rightarrow> any" where
  "initializeResult agentCapabilities =
     Go (JObject
       [(''protocolVersion'', JNumber defaultProtocolVersion),
        (''agentCapabilities'', JObject agentCapabilities),
        (''agentInfo'',
           JObject [(''name'', JString runnerName), (''title'', JString ''TLDW ACP Runner''),
                    (''version'', JString runnerVersion)]),
        (''authMethods'', JArray [])])"

definition handleInitialize ::
  "json_decoders \<Rightarrow> Runner \<Rightarrow> string + Conn \<Rightarrow> RPCMessage \<Rightarrow> handler_result \<times> Runner" where
  "handleInitialize dec r spawn msg =
     (case buildAgentCapabilities dec r spawn of
        (agentCapabilities, r') \<Rightarrow>
          ((Some (NewResultResponse (msg_ID msg) (initializeResult agentCapabilities)), None), r'))"

section \<open>Broker: \<^verbatim>\<open>session/new\<close>\<close>

text \<open>\<^verbatim>\<open>NewErrorResponse(id, code, fmt.Sprintf(message + "%v", err))\<close> for an error of the guard.\<close>

definition NewErrorResponseCause :: "RawMessage \<Rightarrow> int \<Rightarrow> string \<Rightarrow> guard_error \<Rightarrow> RPCResponse" where
  "NewErrorResponseCause i code message err =
     \<lparr>resp_JSONRPC = JSONRPCVersion, resp_ID = i, resp_Result = Absent,
      resp_Error = Some \<lparr>Code = code, Message = message, Cause = Some err\<rparr>\<rparr>"

text \<open>A response that hands on the error object of the downstream.\<close>

definition errorPassedOn :: "RawMessage \<Rightarrow> RPCError option \<Rightarrow> RPCResponse" where
  "errorPassedOn i e =
     \<lparr>resp_JSONRPC = JSONRPCVersion, resp_ID = i, resp_Result = Absent, resp_Error = e\<rparr>"

text \<open>
  The second half of \<^verbatim>\<open>handleSessionNew\<close>, from the forwarded \<^verbatim>\<open>session/new\<close> on. \<open>None\<close> for
  the handler's result stands for the panic of \<^verbatim>\<open>resp.Error\<close> on a \<^verbatim>\<open>nil\<close> response that came
  without an error.
\<close>

definition sessionNewForward ::
  "json_decoders \<Rightarrow> platform \<Rightarrow> Runner \<Rightarrow> Conn \<Rightarrow> Session \<Rightarrow> RPCMessage
     \<Rightarrow> handler_result option \<times> Runner" where
  "sessionNewForward dec os r down ws msg =
     (case CallRaw down ''session/new'' (msg_Params msg) of
        (resp, Some err) \<Rightarrow>
          (Some (Some (NewErrorResponse (msg_ID msg) ErrInternal
                         (''downstream session/new failed: '' @ err)), None), r)
      | (None, None) \<Rightarrow> (None, r)
      | (Some m, None) \<Rightarrow>
          if msg_Error m \<noteq> None
          then (Some (Some (errorPassedOn (msg_ID msg) (msg_Error m)), None), r)
          else
            (case Unmarshal_sessionResult dec (msg_Result m) of
               None \<Rightarrow>
                 (Some (Some (NewErrorResponse (msg_ID msg) ErrInternal
                                ''invalid downstream session/new result''), None), r)
             | Some sid \<Rightarrow>
                 if sid = ''''
                 then (Some (Some (NewErrorResponse (msg_ID msg) ErrInternal
                                     ''missing downstream sessionId''), None), r)
                 else
                   (Some (Some (NewResultResponse (msg_ID msg) (RawJSON (msg_Result m))), None),
                    r\<lparr>sessions :=
                        AList.update sid
                          \<lparr>session_id = sid, downstream = down, workspace = ws,
                           terminal = NewTerminalManager os (cfg r) ws\<rparr>
                          (sessions r)\<rparr>)))"

text \<open>
  \<^verbatim>\<open>handleSessionNew(msg)\<close> returns what the handler returns and the runner. The
  capabilities are cached as soon as the downstream \<^verbatim>\<open>initialize\<close> has answered with a
  result, whatever the rest of the handler does.
\<close>

definition handleSessionNew ::
  "json_decoders \<Rightarrow> platform \<Rightarrow> Runner \<Rightarrow> string + Conn \<Rightarrow> RPCMessage
     \<Rightarrow> handler_result option \<times> Runner" where
  "handleSessionNew dec os r spawn msg =
     (if AgentCommand (Agent (cfg r)) = ''''
      then (Some (Some (NewErrorResponse (msg_ID msg) ErrInvalidParams
                          ''agent.command is required''), None), r)
      else
        case Unmarshal_sessionNewParams dec (msg_Params msg) of
          None \<Rightarrow> (Some (Some (NewErrorResponse (msg_ID msg) ErrInvalidParams
                                 ''invalid session/new params''), None), r)
        | Some params \<Rightarrow>
            if Cwd params = '''' \<or> \<not> filepath_IsAbs os (Cwd params)
            then (Some (Some (NewErrorResponse (msg_ID msg) ErrInvalidParams
                                ''cwd must be an absolute path''), None), r)
            else
              (case SetRoot os (NewSession (cfg r)) (Cwd params) of
                 (Some err, ws) \<Rightarrow>
                   (Some (Some (NewErrorResponseCause (msg_ID msg) ErrInvalidParams
                                  ''invalid cwd: '' err), None), r)
               | (None, ws) \<Rightarrow>
                   (case spawn of
                      Inl err \<Rightarrow>
                        (Some (Some (NewErrorResponse (msg_ID msg) ErrInternal err), None), r)
                    | Inr down \<Rightarrow>
                        (case Call down ''initialize'' (initParams (cfg r)) of
                           (initResp, Some err) \<Rightarrow>
                             (Some (Some (NewErrorResponse (msg_ID msg) ErrInternal
                                            (''downstream initialize failed: '' @ err)), None), r)
                         | (None, None) \<Rightarrow> sessionNewForward dec os r down ws msg
                         | (Some m, None) \<Rightarrow>
                             if msg_Error m \<noteq> None
                             then (Some (Some (errorPassedOn (msg_ID msg) (msg_Error m)), None), r)
                             else sessionNewForward dec os
                                    (if msg_Result m \<noteq> []
                                     then updateCachedCapabilities dec r (msg_Result m) else r)
                                    down ws msg))))"

section \<open>Broker: the callbacks of the agent\<close>

text \<open>
  \<^verbatim>\<open>types.ToolResult\<close> and \<^verbatim>\<open>TerminalExitStatus\<close>, and what the handlers call on the session:
  \<^verbatim>\<open>session.fsTools\<close> and \<^verbatim>\<open>session.terminal\<close>. Each call is a step on the state \<open>'w\<close> of the
  workspace and its processes, and the handlers are modelled over any such steps; an
  error is given by its text. How long a call takes (\<^verbatim>\<open>WaitForExit\<close> blocks) is not
  modelled.
\<close>

record ToolResult =
  OK :: bool
  Data :: json
  ToolError :: string

record TerminalExitStatus =
  ExitCode :: "int option"
  Signal :: "string option"

record 'w backend =
  fsTools_Read :: "(string \<times> json) list \<Rightarrow> 'w \<Rightarrow> (ToolResult \<times> string option) \<times> 'w"
  fsTools_Write :: "(string \<times> json) list \<Rightarrow> 'w \<Rightarrow> (ToolResult \<times> string option) \<times> 'w"
  terminal_Create :: "string \<Rightarrow> string list \<Rightarrow> string \<Rightarrow> int \<Rightarrow> 'w \<Rightarrow> (string + string) \<times> 'w"
  terminal_Output :: "string \<Rightarrow> 'w \<Rightarrow> (string + string \<times> bool \<times> TerminalExitStatus option) \<times> 'w"
  terminal_WaitForExit :: "string \<Rightarrow> 'w \<Rightarrow> (string + TerminalExitStatus) \<times> 'w"
  terminal_Kill :: "string \<Rightarrow> 'w \<Rightarrow> string option \<times> 'w"
  terminal_Release :: "string \<Rightarrow> 'w \<Rightarrow> string option \<times> 'w"

definition errorResult :: "RPCMessage \<Rightarrow> int \<Rightarrow> string \<Rightarrow> handler_result" where
  "errorResult msg code message = (Some (NewErrorResponse (msg_ID msg) code message), None)"

definition okResult :: "RPCMessage \<Rightarrow> any \<Rightarrow> handler_result" where
  "okResult msg result = (Some (NewResultResponse (msg_ID msg) result), None)"

text \<open>\<^verbatim>\<open>{outcome: {outcome: "cancelled"}}\<close>.\<close>

definition cancelled :: any where
  "cancelled = Go (JObject [(''outcome'', JObject [(''outcome'', JString ''cancelled'')])])"

definition handlePermissionRequest :: "Runner \<Rightarrow> acp_Session \<Rightarrow> RPCMessage \<Rightarrow> handler_result" where
  "handlePermissionRequest r sess msg =
     (case upstream r of
        None \<Rightarrow> okResult msg cancelled
      | Some up \<Rightarrow>
          (case CallRaw up ''session/request_permission'' (msg_Params msg) of
             (resp, err) \<Rightarrow>
               if err \<noteq> None \<or> resp = None then okResult msg cancelled
               else
                 (case resp of
                    None \<Rightarrow> okResult msg cancelled
                  | Some m \<Rightarrow>
                      if msg_Error m \<noteq> None then okResult msg cancelled
                      else okResult msg (RawJSON (msg_Result m)))))"

text \<open>
  The file callbacks. \<^verbatim>\<open>line\<close> and \<^verbatim>\<open>limit\<close> are Go \<^verbatim>\<open>int\<close>s; the sum for \<^verbatim>\<open>end_line\<close> is taken
  over the integers, without the wrap-around of 64 bits.
\<close>

definition handleFSRead ::
  "json_decoders \<Rightarrow> platform \<Rightarrow> 'w backend \<Rightarrow> acp_Session \<Rightarrow> RPCMessage \<Rightarrow> 'w
     \<Rightarrow> handler_result \<times> 'w" where
  "handleFSRead dec os b sess msg w =
     (case Unmarshal_fsReadParams dec (msg_Params msg) of
        None \<Rightarrow> (errorResult msg ErrInvalidParams ''invalid fs/read_text_file params'', w)
      | Some params \<Rightarrow>
          if Path params = '''' \<or> \<not> filepath_IsAbs os (Path params)
          then (errorResult msg ErrInvalidParams ''path must be absolute'', w)
          else if SessionID params \<noteq> '''' \<and> session_id sess \<noteq> SessionID params
          then (errorResult msg ErrInvalidParams ''sessionId mismatch'', w)
          else
            let args0 = [(''path'', JString (Path params))];
                args = (if Limit params > 0
                        then (let startLine = (if Line params \<le> 0 then 1 else Line params)
                              in args0 @ [(''start_line'', JNumber startLine),
                                          (''end_line'', JNumber (startLine + Limit params - 1))])
                        else if Line params > 0
                        then args0 @ [(''start_line'', JNumber (Line params))]
                        else args0)
            in (case fsTools_Read b args w of
                  ((res, err), w') \<Rightarrow>
                    if err \<noteq> None \<or> \<not> OK res
                    then (errorResult msg ErrInternal ''failed to read file'', w')
                    else
                      (case Data res of
                         JObject data \<Rightarrow>
                           (okResult msg
                              (Go (JObject
                                 [(''content'',
                                   JString (case map_of data ''content'' of
                                              Some (JString content) \<Rightarrow> content
                                            | _ \<Rightarrow> ''''))])),
                            w')
                       | _ \<Rightarrow> (errorResult msg ErrInternal ''unexpected read result'', w'))))"

definition handleFSWrite ::
  "json_decoders \<Rightarrow> platform \<Rightarrow> 'w backend \<Rightarrow> acp_Session \<Rightarrow> RPCMessage \<Rightarrow> 'w
     \<Rightarrow> handler_result \<times> 'w" where
  "handleFSWrite dec os b sess msg w =
     (case Unmarshal_fsWriteParams dec (msg_Params msg) of
        None \<Rightarrow> (errorResult msg ErrInvalidParams ''invalid fs/write_text_file params'', w)
      | Some params \<Rightarrow>
          if Path params = '''' \<or> \<not> filepath_IsAbs os (Path params)
          then (errorResult msg ErrInvalidParams ''path must be absolute'', w)
          else if SessionID params \<noteq> '''' \<and> session_id sess \<noteq> SessionID params
          then (errorResult msg ErrInvalidParams ''sessionId mismatch'', w)
          else
            (case fsTools_Write b [(''path'', JString (Path params)),
                                   (''content'', JString (Content params))] w of
               ((res, err), w') \<Rightarrow>
                 if err \<noteq> None \<or> \<not> OK res
                 then (errorResult msg ErrInternal ''failed to write file'', w')
                 else (okResult msg Absent, w')))"

text \<open>The terminal callbacks.\<close>

definition handleTerminalCreate ::
  "json_decoders \<Rightarrow> 'w backend \<Rightarrow> acp_Session \<Rightarrow> RPCMessage \<Rightarrow> 'w \<Rightarrow> handler_result \<times> 'w" where
  "handleTerminalCreate dec b sess msg w =
     (case Unmarshal_terminalCreateParams dec (msg_Params msg) of
        None \<Rightarrow> (errorResult msg ErrInvalidParams ''invalid terminal/create params'', w)
      | Some params \<Rightarrow>
          if SessionID params \<noteq> '''' \<and> session_id sess \<noteq> SessionID params
          then (errorResult msg ErrInvalidParams ''sessionId mismatch'', w)
          else
            (case terminal_Create b (tc_Command params) (tc_Args params) (tc_Cwd params)
                    (OutputByteLimit params) w of
               (Inl err, w') \<Rightarrow> (errorResult msg ErrInternal err, w')
             | (Inr termID, w') \<Rightarrow>
                 (okResult msg (Go (JObject [(''terminalId'', JString termID)])), w')))"

definition exitStatusJSON :: "TerminalExitStatus \<Rightarrow> (string \<times> json) list" where
  "exitStatusJSON st =
     [(''exitCode'', case ExitCode st of None \<Rightarrow> JNull | Some c \<Rightarrow> JNumber c),
      (''signal'', case Signal st of None \<Rightarrow> JNull | Some sg \<Rightarrow> JString sg)]"

definition handleTerminalOutput ::
  "json_decoders \<Rightarrow> 'w backend \<Rightarrow> acp_Session \<Rightarrow> RPCMessage \<Rightarrow> 'w \<Rightarrow> handler_result \<times> 'w" where
  "handleTerminalOutput dec b sess msg w =
     (case Unmarshal_terminalParams dec (msg_Params msg) of
        None \<Rightarrow> (errorResult msg ErrInvalidParams ''invalid terminal/output params'', w)
      | Some params \<Rightarrow>
          if SessionID params \<noteq> '''' \<and> session_id sess \<noteq> SessionID params
          then (errorResult msg ErrInvalidParams ''sessionId mismatch'', w)
          else
            (case terminal_Output b (TerminalID params) w of
               (Inl err, w') \<Rightarrow> (errorResult msg ErrInternal err, w')
             | (Inr (out, trunc, exitStatus), w') \<Rightarrow>
                 (okResult msg
                    (Go (JObject
                       ([(''output'', JString out), (''truncated'', JBool trunc)]
                        @ (case exitStatus of
                             None \<Rightarrow> []
                           | Some st \<Rightarrow> [(''exitStatus'', JObject (exitStatusJSON st))])))),
                  w')))"

definition handleTerminalWait ::
  "json_decoders \<Rightarrow> 'w backend \<Rightarrow> acp_Session \<Rightarrow> RPCMessage \<Rightarrow> 'w \<Rightarrow> handler_result \<times> 'w" where
  "handleTerminalWait dec b sess msg w =
     (case Unmarshal_terminalParams dec (msg_Params msg) of
        None \<Rightarrow> (errorResult msg ErrInvalidParams ''invalid terminal/wait_for_exit params'', w)
      | Some params \<Rightarrow>
          if SessionID params \<noteq> '''' \<and> session_id sess \<noteq> SessionID params
          then (errorResult msg ErrInvalidParams ''sessionId mismatch'', w)
          else
            (case terminal_WaitForExit b (TerminalID params) w of
               (Inl err, w') \<Rightarrow> (errorResult msg ErrInternal err, w')
             | (Inr st, w') \<Rightarrow> (okResult msg (Go (JObject (exitStatusJSON st))), w')))"

definition handleTerminalKill ::
  "json_decoders \<Rightarrow> 'w backend \<Rightarrow> acp_Session \<Rightarrow> RPCMessage \<Rightarrow> 'w \<Rightarrow> handler_result \<times> 'w" where
  "handleTerminalKill dec b sess msg w =
     (case Unmarshal_terminalParams dec (msg_Params msg) of
        None \<Rightarrow> (errorResult msg ErrInvalidParams ''invalid terminal/kill params'', w)
      | Some params \<Rightarrow>
          if SessionID params \<noteq> '''' \<and> session_id sess \<noteq> SessionID params
          then (errorResult msg ErrInvalidParams ''sessionId mismatch'', w)
          else
            (case terminal_Kill b (TerminalID params) w of
               (Some err, w') \<Rightarrow> (errorResult msg ErrInternal err, w')
             | (None, w') \<Rightarrow> (okResult msg Absent, w')))"

definition handleTerminalRelease ::
  "json_decoders \<Rightarrow> 'w backend \<Rightarrow> acp_Session \<Rightarrow> RPCMessage \<Rightarrow> 'w \<Rightarrow> handler_result \<times> 'w" where
  "handleTerminalRelease dec b sess msg w =
     (case Unmarshal_terminalParams dec (msg_Params msg) of
        None \<Rightarrow> (errorResult msg ErrInvalidParams ''invalid terminal/release params'', w)
      | Some params \<Rightarrow>
          if SessionID params \<noteq> '''' \<and> session_id sess \<noteq> SessionID params
          then (errorResult msg ErrInvalidParams ''sessionId mismatch'', w)
          else
            (case terminal_Release b (TerminalID params) w of
               (Some err, w') \<Rightarrow> (errorResult msg ErrInternal err, w')
             | (None, w') \<Rightarrow> (okResult msg Absent, w')))"

text \<open>\<^verbatim>\<open>handleDownstreamRequest\<close>: the switch on the method.\<close>

definition handleDownstreamRequest ::
  "json_decoders \<Rightarrow> platform \<Rightarrow> 'w backend \<Rightarrow> Runner \<Rightarrow> acp_Session \<Rightarrow> RPCMessage \<Rightarrow> 'w
     \<Rightarrow> handler_result \<times> 'w" where
  "handleDownstreamRequest dec os b r sess msg w =
     (if msg_Method msg = ''fs/read_text_file'' then handleFSRead dec os b sess msg w
      else if msg_Method msg = ''fs/write_text_file'' then handleFSWrite dec os b sess msg w
      else if msg_Method msg = ''terminal/create'' then handleTerminalCreate dec b sess msg w
      else if msg_Method msg = ''terminal/output'' then handleTerminalOutput dec b sess msg w
      else if msg_Method msg = ''terminal/wait_for_exit'' then handleTerminalWait dec b sess msg w
      else if msg_Method msg = ''terminal/kill'' then handleTerminalKill dec b sess msg w
      else if msg_Method msg = ''terminal/release'' then handleTerminalRelease dec b sess msg w
      else if msg_Method msg = ''session/request_permission''
      then (handlePermissionRequest r sess msg, w)
      else (errorResult msg ErrMethodNotFound ''method not found'', w))"

section \<open>A concrete broker\<close>

text \<open>
  The broker, agent and messages that the concrete runs below use. The agent is the stub
  of the repository's tests: it answers \<^verbatim>\<open>initialize\<close> with capabilities that are all set,
  and \<^verbatim>\<open>session/new\<close> with the session id \<^verbatim>\<open>session_stub\<close>. Raw JSON is given by short
  stand-in texts, and the decoders say what each decodes to.
\<close>

definition stub_caps :: "(string \<times> json) list" where
  "stub_caps =
     [(''promptCapabilities'',
         JObject [(''image'', JBool True), (''audio'', JBool True),
                  (''embeddedContext'', JBool True)]),
      (''mcpCapabilities'', JObject [(''http'', JBool True), (''sse'', JBool True)]),
      (''sessionCapabilities'', JObject [(''cancel'', JBool True)])]"

definition response :: "RawMessage \<Rightarrow> RPCMessage" where
  "response result =
     \<lparr>msg_JSONRPC = ''2.0'', msg_ID = ''1'', msg_Method = '''', msg_Params = [],
      msg_Result = result, msg_Error = None\<rparr>"

definition request :: "string \<Rightarrow> RawMessage \<Rightarrow> RPCMessage" where
  "request method params =
     \<lparr>msg_JSONRPC = ''2.0'', msg_ID = ''7'', msg_Method = method, msg_Params = params,
      msg_Result = [], msg_Error = None\<rparr>"

definition stub_agent :: Conn where
  "stub_agent =
     \<lparr>Call = (\<lambda>method params.
                if method = ''initialize'' then (Some (response ''{init-result}''), None)
                else (None, Some ''method not found'')),
      CallRaw = (\<lambda>method params.
                if method = ''session/new'' then (Some (response ''{session-result}''), None)
                else (None, Some ''method not found''))\<rparr>"

text \<open>
  An agent started later, which reports less: embedded context only, and nothing about
  MCP or sessions.
\<close>

definition later_caps :: "(string \<times> json) list" where
  "later_caps =
     [(''promptCapabilities'',
         JObject [(''image'', JBool False), (''audio'', JBool False),
                  (''embeddedContext'', JBool True)])]"

definition later_agent :: Conn where
  "later_agent =
     \<lparr>Call = (\<lambda>method params.
                if method = ''initialize'' then (Some (response ''{init-result-later}''), None)
                else (None, Some ''method not found'')),
      CallRaw = (\<lambda>method params.
                if method = ''session/new'' then (Some (response ''{session-result}''), None)
                else (None, Some ''method not found''))\<rparr>"

text \<open>An upstream that grants every permission, one that answers with an error, and one
  whose transport fails.\<close>

definition granting_upstream :: Conn where
  "granting_upstream =
     \<lparr>Call = (\<lambda>method params. (None, Some ''not used'')),
      CallRaw = (\<lambda>method params. (Some (response ''{granted}''), None))\<rparr>"

definition refusing_upstream :: Conn where
  "refusing_upstream =
     \<lparr>Call = (\<lambda>method params. (None, Some ''not used'')),
      CallRaw = (\<lambda>method params.
                  (Some ((response [])
                           \<lparr>msg_Error := Some \<lparr>Code = ErrMethodNotFound,
                                                Message = ''method not found'',
                                                Cause = None\<rparr>\<rparr>), None))\<rparr>"

definition broken_upstream :: Conn where
  "broken_upstream =
     \<lparr>Call = (\<lambda>method params. (None, Some ''not used'')),
      CallRaw = (\<lambda>method params. (None, Some ''write message: broken pipe''))\<rparr>"

definition example_decoders :: json_decoders where
  "example_decoders =
     \<lparr>Unmarshal_any =
        (\<lambda>raw. if raw = ''{init-result}''
                then Some (JObject [(''protocolVersion'', JNumber 1),
                                    (''agentCapabilities'', JObject stub_caps)])
                else if raw = ''{init-result-later}''
                then Some (JObject [(''protocolVersion'', JNumber 1),
                                    (''agentCapabilities'', JObject later_caps)])
                else None),
      Unmarshal_sessionNewParams =
        (\<lambda>raw. if raw = ''{cwd-ws}'' then Some \<lparr>Cwd = ''/ws''\<rparr> else None),
      Unmarshal_sessionResult =
        (\<lambda>raw. if raw = ''{session-result}'' then Some ''session_stub'' else None),
      Unmarshal_fsReadParams =
        (\<lambda>raw. if raw = ''{other-relative}''
                then Some \<lparr>SessionID = ''other'', Path = ''notes.txt'', Line = 0, Limit = 0\<rparr>
                else if raw = ''{other-absolute}''
                then Some \<lparr>SessionID = ''other'', Path = ''/ws/etc/passwd'', Line = 0, Limit = 0\<rparr>
                else if raw = ''{anonymous}''
                then Some \<lparr>SessionID = '''', Path = ''/ws/etc/passwd'', Line = 0, Limit = 0\<rparr>
                else None),
      Unmarshal_fsWriteParams =
        (\<lambda>raw. if raw = ''{other-relative}''
                then Some \<lparr>SessionID = ''other'', Path = ''notes.txt'', Content = ''x''\<rparr>
                else if raw = ''{other-absolute}''
                then Some \<lparr>SessionID = ''other'', Path = ''/ws/notes.txt'', Content = ''x''\<rparr>
                else if raw = ''{anonymous}''
                then Some \<lparr>SessionID = '''', Path = ''/ws/notes.txt'', Content = ''x''\<rparr>
                else None),
      Unmarshal_terminalCreateParams =
        (\<lambda>raw. if raw = ''{other-absolute}''
                then Some \<lparr>SessionID = ''other'', tc_Command = ''go'',
                           tc_Args = [''mod'', ''tidy''], tc_Cwd = '''', OutputByteLimit = 0\<rparr>
                else if raw = ''{anonymous}''
                then Some \<lparr>SessionID = '''', tc_Command = ''go'',
                           tc_Args = [''mod'', ''tidy''], tc_Cwd = '''', OutputByteLimit = 0\<rparr>
                else None),
      Unmarshal_terminalParams =
        (\<lambda>raw. if raw = ''{other-absolute}''
                then Some \<lparr>SessionID = ''other'', TerminalID = ''term_9''\<rparr>
                else if raw = ''{anonymous}''
                then Some \<lparr>SessionID = '''', TerminalID = ''term_9''\<rparr>
                else None)\<rparr>"

definition example_runner :: Runner where
  "example_runner =
     NewRunner (Default\<lparr>Agent := \<lparr>AgentCommand = ''stub-agent'', AgentArgs = [], AgentEnv = []\<rparr>\<rparr>)"

definition example_acp_session :: acp_Session where
  "example_acp_session =
     \<lparr>session_id = ''session_stub'', downstream = stub_agent, workspace = example_session,
      terminal = example_manager\<rparr>"

text \<open>
  What the session does for the callbacks, on the state of its terminal manager: a read
  finds the text \<^verbatim>\<open>hello\<close>, a write succeeds, \<^verbatim>\<open>terminal/create\<close> is \<^verbatim>\<open>Create\<close>, and the other
  terminal calls are for an id that no terminal has.
\<close>

definition example_backend :: "TerminalManager backend" where
  "example_backend =
     \<lparr>fsTools_Read =
        (\<lambda>args m. ((\<lparr>OK = True, Data = JObject [(''content'', JString ''hello'')],
                       ToolError = ''''\<rparr>, None), m)),
      fsTools_Write =
        (\<lambda>args m. ((\<lparr>OK = True, Data = JObject [(''bytes'', JNumber 1)],
                       ToolError = ''''\<rparr>, None), m)),
      terminal_Create =
        (\<lambda>command args cwd0 lim m.
           case Create example_os m command args cwd0 lim of
             (Inl err, m', started) \<Rightarrow> (Inl ''create failed'', m')
           | (Inr termID, m', started) \<Rightarrow> (Inr termID, m')),
      terminal_Output = (\<lambda>termID m. (Inl ''terminal not found'', m)),
      terminal_WaitForExit = (\<lambda>termID m. (Inl ''terminal not found'', m)),
      terminal_Kill = (\<lambda>termID m. (Some ''terminal not found'', m)),
      terminal_Release = (\<lambda>termID m. (Some ''terminal not found'', m))\<rparr>"

section \<open>Properties\<close>

subsection \<open>Capped buffer\<close>

lemma Write_limit: "limit (snd (Write b p)) = limit b"
  by (simp add: Write_def Let_def)

lemma writeAll_limit: "limit (writeAll b ws) = limit b"
  unfolding writeAll_def by (induction ws arbitrary: b) (simp_all add: Write_limit)

lemma writeAll_append: "writeAll b (ws @ [w]) = snd (Write (writeAll b ws) w)"
  by (simp add: writeAll_def)

text \<open>
  The invariant behind the buffer: after any writes, the contents are the last \<^verbatim>\<open>limit\<close>
  bytes of everything written, and the flag records whether anything was dropped.
\<close>

lemma writeAll_invariant:
  assumes "0 < l"
  shows "buf (writeAll (newCappedBuffer l) ws) = drop (length (concat ws) - nat l) (concat ws)
       \<and> truncated (writeAll (newCappedBuffer l) ws) = (l < int (length (concat ws)))"
proof (induction ws rule: rev_induct)
  case Nil
  from assms show ?case by (simp add: writeAll_def newCappedBuffer_def)
next
  case (snoc w ws)
  let ?b = "writeAll (newCappedBuffer l) ws"
  have lim: "limit ?b = l" by (simp add: writeAll_limit newCappedBuffer_def)
  from snoc have B: "buf ?b = drop (length (concat ws) - nat l) (concat ws)"
    and T: "truncated ?b = (l < int (length (concat ws)))" by simp_all
  show ?case
  proof (cases "l < int (length (concat ws))")
    case True
    then have len: "length (buf ?b) = nat l" using assms B by simp
    show ?thesis
    proof (cases "w = []")
      case True
      with \<open>l < int (length (concat ws))\<close> assms lim B T len show ?thesis
        by (simp add: writeAll_append Write_def Let_def)
    next
      case False
      then have "0 < length w" by simp
      with True assms lim B T len show ?thesis
        by (auto simp add: writeAll_append Write_def Let_def add.commute)
    qed
  next
    case False
    then have whole: "buf ?b = concat ws" using B by simp
    from False T have nt: "\<not> truncated ?b" by simp
    from False whole nt lim assms show ?thesis
      by (auto simp add: writeAll_append Write_def Let_def)
  qed
qed

text \<open>
  C5. For a capped buffer with a positive limit and any finite sequence of writes,
  \<^verbatim>\<open>Snapshot\<close> returns a suffix of the concatenation of the writes, of length at most the
  limit, and the truncated flag is set exactly when more bytes were written than the limit.
\<close>

theorem C5_capped_buffer_snapshot:
  assumes "0 < l"
  shows "suffix (fst (Snapshot (writeAll (newCappedBuffer l) ws))) (concat ws)
       \<and> int (length (fst (Snapshot (writeAll (newCappedBuffer l) ws)))) \<le> l
       \<and> snd (Snapshot (writeAll (newCappedBuffer l) ws)) = (l < int (length (concat ws)))"
  using writeAll_invariant [OF assms, of ws] assms
  by (auto simp add: Snapshot_def suffix_drop)

theorem C5_capped_buffer_snapshot_witness:
  "suffix (fst (Snapshot (writeAll (newCappedBuffer 4) [''ab'', ''cde'', ''f'']))) ''abcdef''
   \<and> fst (Snapshot (writeAll (newCappedBuffer 4) [''ab'', ''cde'', ''f''])) = ''cdef''
   \<and> snd (Snapshot (writeAll (newCappedBuffer 4) [''ab'', ''cde'', ''f'']))"
proof -
  have pos: "(0::int) < 4" by simp
  have run: "fst (Snapshot (writeAll (newCappedBuffer 4) [''ab'', ''cde'', ''f''])) = ''cdef''"
    by (simp add: Snapshot_def writeAll_def newCappedBuffer_def Write_def Let_def)
  from C5_capped_buffer_snapshot [OF pos, of "[''ab'', ''cde'', ''f'']"] run
  show ?thesis by simp
qed

subsection \<open>Allowlist matching\<close>

lemma tokensMatchPrefix_iff: "tokensMatchPrefix pre full \<longleftrightarrow> prefix pre full"
proof
  assume m: "tokensMatchPrefix pre full"
  then have le: "length pre \<le> length full"
    by (simp add: tokensMatchPrefix_def split: if_splits)
  from m le have "\<forall>i<length pre. pre ! i = full ! i"
    by (simp add: tokensMatchPrefix_def list_all_iff)
  with le have "pre = take (length pre) full"
    by (simp add: list_eq_iff_nth_eq)
  then show "prefix pre full"
    by (metis take_is_prefix)
next
  assume "prefix pre full"
  then obtain r where "full = pre @ r" by (auto simp add: prefix_def)
  then show "tokensMatchPrefix pre full"
    by (simp add: tokensMatchPrefix_def list_all_iff nth_append)
qed

lemma matchAllowlist_find:
  "matchAllowlist cmds command args =
     (case find (\<lambda>c. entry_accepts c (command # args)) cmds of
        None \<Rightarrow> Inl ''command not in allowlist''
      | Some c \<Rightarrow> Inr (c, drop (length (Fields (Template c))) (command # args)))"
proof (induction cmds)
  case Nil
  show ?case by simp
next
  case (Cons cmd cmds)
  have short: "\<not> prefix (Fields (Template cmd)) (command # args)"
    if "length (command # args) < length (Fields (Template cmd))"
    using that prefix_length_le by fastforce
  show ?case
  proof (cases "entry_accepts cmd (command # args)")
    case True
    then show ?thesis
      by (auto simp add: entry_accepts_def Let_def tokensMatchPrefix_iff dest: prefix_length_le)
  next
    case False
    then show ?thesis
      using Cons.IH short
      by (auto simp add: entry_accepts_def Let_def tokensMatchPrefix_iff)
  qed
qed

lemma Fields_pytest: "Fields ''python -m pytest'' = [''python'', ''-m'', ''pytest'']"
  by (simp add: Fields_def spaceWidth_def spaceRunes_def)


text \<open>
  C2 (as amended). \<^verbatim>\<open>matchAllowlist\<close> scans the entries in declared order and returns the
  first entry that accepts the request, with the tokens beyond its template; an entry
  accepts when its tokenised template is non-empty and starts \<^verbatim>\<open>[command] ++ args\<close>, and
  the rest is empty, or \<^verbatim>\<open>AllowArgs\<close> holds and (\<^verbatim>\<open>MaxArgs <= 0\<close> or the rest has at most
  \<^verbatim>\<open>MaxArgs\<close> tokens). When no entry accepts, the error is "command not in allowlist"; so
  it is for \<^verbatim>\<open>python -m pytest\<close> followed by 21 more tokens, where \<^verbatim>\<open>MaxArgs\<close> is 20.
\<close>

theorem C2_allowlist_match:
  "matchAllowlist cmds command args =
     (case find (\<lambda>c. entry_accepts c (command # args)) cmds of
        None \<Rightarrow> Inl ''command not in allowlist''
      | Some c \<Rightarrow> Inr (c, drop (length (Fields (Template c))) (command # args)))
   \<and> matchAllowlist defaultUnixCommands ''python'' ([''-m'', ''pytest''] @ replicate 21 ''x'')
       = Inl ''command not in allowlist''"
proof
  show "matchAllowlist cmds command args =
     (case find (\<lambda>c. entry_accepts c (command # args)) cmds of
        None \<Rightarrow> Inl ''command not in allowlist''
      | Some c \<Rightarrow> Inr (c, drop (length (Fields (Template c))) (command # args)))"
    by (rule matchAllowlist_find)
  show "matchAllowlist defaultUnixCommands ''python'' ([''-m'', ''pytest''] @ replicate 21 ''x'')
       = Inl ''command not in allowlist''"
    by code_simp
qed

text \<open>
  The claim as the specification words it fails on two entries a configuration file can
  declare. An entry whose template has no token matches every request by the
  specification's condition, and the code skips it; an entry with a negative \<^verbatim>\<open>max_args\<close>
  and one extra token does not match by the specification's condition, and the code
  accepts it.
\<close>

theorem C2_allowlist_match_counterexample:
  "spec_entry_matches (mkCommand ''blank'' '''' '''' ''custom'' True 0) [''rm'', ''-rf'', ''/'']
   \<and> matchAllowlist [mkCommand ''blank'' '''' '''' ''custom'' True 0] ''rm'' [''-rf'', ''/'']
       = Inl ''command not in allowlist''
   \<and> \<not> spec_entry_matches (mkCommand ''make'' ''make'' '''' ''custom'' True (- 1)) [''make'', ''all'']
   \<and> matchAllowlist [mkCommand ''make'' ''make'' '''' ''custom'' True (- 1)] ''make'' [''all'']
       = Inr (mkCommand ''make'' ''make'' '''' ''custom'' True (- 1), [''all''])"
  by code_simp

subsection \<open>Shell metacharacters in extra arguments\<close>






subsection \<open>The limit of the output buffer\<close>

text \<open>What lines 112 to 118 of \<^verbatim>\<open>Create\<close> compute, by cases.\<close>

lemma bufferLimit_cases:
  "bufferLimit m l = (if 0 < m then (if 0 < l \<and> l < m then l else m) else 1048576)"
  by (simp add: bufferLimit_def Let_def)

text \<open>
  C7. With \<^verbatim>\<open>max_output_bytes\<close> unset (zero) and a per-call \<^verbatim>\<open>outputByteLimit\<close> of 4096, the
  claim asks for a buffer limit of 4096. The code compares the per-call value with the
  configured zero, keeps the zero and falls back to 1 MiB: the terminal \<^verbatim>\<open>go mod tidy\<close> is
  created with a buffer of 1048576 bytes.
\<close>

theorem C7_per_call_limit_ignored:
  "bufferLimit 0 4096 = 1048576
   \<and> (case Create example_os example_manager_unset ''go'' [''mod'', ''tidy''] '''' 4096 of
        (r, m', started) \<Rightarrow> (r, map (\<lambda>(i, p). (i, limit (output_buf p))) (terminals m')))
      = (Inr ''term_1'', [(''term_1'', 1048576)])"
  by code_simp

subsection \<open>Workspace guard: what \<^verbatim>\<open>ResolvePath\<close> checks and what it returns\<close>

text \<open>
  What a successful \<^verbatim>\<open>ResolvePath\<close> has established, on any platform: the real path of the
  path it checked lies under the real root and is not blocked. The path it returns is
  \<^verbatim>\<open>filepath.Clean(absPath)\<close>, which is a different string.
\<close>

lemma ResolvePath_validated:
  assumes "ResolvePath os s p = Inr q"
  shows "\<exists>absPath checked realPath realRoot rel.
           absPath = (if filepath_IsAbs os p then p else filepath_Join os [root s, cwd s, p])
         \<and> checked = (if filepath_IsAbs os absPath then absPath
                       else filepath_Join os [root s, cwd s, absPath])
         \<and> q = filepath_Clean os absPath
         \<and> realPathOf os checked = Inr realPath
         \<and> filepath_EvalSymlinks os (root s) = Inr realRoot
         \<and> filepath_Rel os realRoot realPath = Inr rel
         \<and> \<not> prefix ''..'' rel
         \<and> \<not> IsPathBlocked os (config s) realPath"
proof -
  let ?abs = "if filepath_IsAbs os p then p else filepath_Join os [root s, cwd s, p]"
  let ?chk = "if filepath_IsAbs os ?abs then ?abs else filepath_Join os [root s, cwd s, ?abs]"
  from assms have r: "root s \<noteq> ''''" and v: "validatePathLocked os s ?abs = None"
    and q: "q = filepath_Clean os ?abs"
    by (auto simp add: ResolvePath_def Let_def split: if_splits option.splits)
  from v r obtain realPath where rp: "realPathOf os ?chk = Inr realPath"
    by (cases "realPathOf os ?chk") (auto simp add: validatePathLocked_def Let_def)
  from v r rp obtain realRoot where rr: "filepath_EvalSymlinks os (root s) = Inr realRoot"
    by (cases "filepath_EvalSymlinks os (root s)") (auto simp add: validatePathLocked_def Let_def)
  from v r rp rr obtain rel where rl: "filepath_Rel os realRoot realPath = Inr rel"
    by (cases "filepath_Rel os realRoot realPath") (auto simp add: validatePathLocked_def Let_def)
  from v r rp rr rl have "\<not> prefix ''..'' rel" "\<not> IsPathBlocked os (config s) realPath"
    by (auto simp add: validatePathLocked_def Let_def split: if_splits)
  with q rp rr rl show ?thesis by blast
qed

text \<open>
  C1. The claim asks that the path \<^verbatim>\<open>ResolvePath\<close> returns resolves to a descendant of the
  root. In the workspace \<^verbatim>\<open>/ws\<close>, with the link \<^verbatim>\<open>/ws/link\<close> to \<^verbatim>\<open>in/deep\<close>, the path
  \<^verbatim>\<open>/ws/link/../../etc/passwd\<close> resolves to \<^verbatim>\<open>/ws/etc/passwd\<close>, which passes the checks; the
  path returned is its lexical cleaning \<^verbatim>\<open>/etc/passwd\<close>, which resolves to itself, and the
  relative path from the root to it is \<^verbatim>\<open>../etc/passwd\<close>.
\<close>

theorem C1_resolve_path_escapes_root:
  "SetRoot example_os (NewSession Default) ''/ws'' = (None, example_session)
   \<and> ResolvePath example_os example_session ''/ws/link/../../etc/passwd'' = Inr ''/etc/passwd''
   \<and> filepath_EvalSymlinks example_os ''/ws'' = Inr ''/ws''
   \<and> filepath_EvalSymlinks example_os ''/etc/passwd'' = Inr ''/etc/passwd''
   \<and> filepath_Rel example_os ''/ws'' ''/etc/passwd'' = Inr ''../etc/passwd''"
  by code_simp

subsection \<open>Workspace guard: \<^verbatim>\<open>Chdir\<close>\<close>

text \<open>
  C9 (as amended). With a non-empty root, \<^verbatim>\<open>Chdir(path)\<close> joins a relative path onto the
  current \<^verbatim>\<open>cwd\<close> and takes an absolute path as it is; either way the directory it checks
  is that path joined onto the root. The call succeeds exactly when the guard accepts
  that directory and \<^verbatim>\<open>os.Stat\<close> finds a directory there; it then sets \<^verbatim>\<open>cwd\<close> to the
  cleaned path and reports it with the directory. Otherwise it reports an error and
  leaves the session as it was.
\<close>

theorem C9_chdir:
  assumes "root s \<noteq> ''''"
  shows "(let newCwd = (if filepath_IsAbs os p then p else filepath_Join os [cwd s, p]);
              absPath = filepath_Join os [root s, newCwd]
          in (validatePathLocked os s absPath = None \<and> os_Stat os absPath = Inr True \<longrightarrow>
                Chdir os s (Some p)
                  = (Inr (filepath_Clean os newCwd, absPath), s\<lparr>cwd := filepath_Clean os newCwd\<rparr>))
           \<and> (\<not> (validatePathLocked os s absPath = None \<and> os_Stat os absPath = Inr True) \<longrightarrow>
                (\<exists>err. Chdir os s (Some p) = (Inl err, s))))"
  using assms
  by (auto simp add: Chdir_def Let_def split: option.splits sum.splits)

text \<open>
  On the concrete workspace: \<^verbatim>\<open>in/deep/..\<close> and \<^verbatim>\<open>/in\<close> both lead to \<^verbatim>\<open>/ws/in\<close>, and \<^verbatim>\<open>..\<close> is
  refused.
\<close>

theorem C9_chdir_witness:
  "Chdir example_os example_session (Some ''in/deep/..'')
     = (Inr (''in'', ''/ws/in''), example_session\<lparr>cwd := ''in''\<rparr>)
   \<and> Chdir example_os example_session (Some ''/in'')
     = (Inr (''/in'', ''/ws/in''), example_session\<lparr>cwd := ''/in''\<rparr>)
   \<and> (\<exists>err. Chdir example_os example_session (Some ''..'') = (Inl err, example_session))"
proof -
  have r: "root example_session \<noteq> ''''" by (simp add: example_session_def)
  have a1: "filepath_IsAbs example_os ''in/deep/..'' = False"
    and j1: "filepath_Join example_os [cwd example_session, ''in/deep/..''] = ''in''"
    and t1: "filepath_Join example_os [root example_session, ''in''] = ''/ws/in''"
    and v1: "validatePathLocked example_os example_session ''/ws/in'' = None"
    and s1: "os_Stat example_os ''/ws/in'' = Inr True"
    and c1: "filepath_Clean example_os ''in'' = ''in''"
    by code_simp+
  have a2: "filepath_IsAbs example_os ''/in'' = True"
    and t2: "filepath_Join example_os [root example_session, ''/in''] = ''/ws/in''"
    and c2: "filepath_Clean example_os ''/in'' = ''/in''"
    by code_simp+
  have a3: "filepath_IsAbs example_os ''..'' = False"
    and j3: "filepath_Join example_os [cwd example_session, ''..''] = ''..''"
    and t3: "filepath_Join example_os [root example_session, ''..''] = ''/''"
    and v3: "validatePathLocked example_os example_session ''/'' = Some PathEscapes"
    by code_simp+
  from C9_chdir [OF r, of example_os "''in/deep/..''"] a1 j1 t1 v1 s1 c1
  have w1: "Chdir example_os example_session (Some ''in/deep/..'')
     = (Inr (''in'', ''/ws/in''), example_session\<lparr>cwd := ''in''\<rparr>)"
    by (simp add: Let_def)
  from C9_chdir [OF r, of example_os "''/in''"] a2 t2 v1 s1 c2
  have w2: "Chdir example_os example_session (Some ''/in'')
     = (Inr (''/in'', ''/ws/in''), example_session\<lparr>cwd := ''/in''\<rparr>)"
    by (simp add: Let_def)
  from C9_chdir [OF r, of example_os "''..''"] a3 j3 t3 v3
  have w3: "\<exists>err. Chdir example_os example_session (Some ''..'') = (Inl err, example_session)"
    by (simp add: Let_def)
  from w1 w2 w3 show ?thesis by blast
qed

text \<open>
  The claim as the specification words it treats an absolute path as absolute.
  \<^verbatim>\<open>/ws/in\<close> is absolute, the guard accepts it and it is a directory, and \<^verbatim>\<open>Chdir\<close> refuses
  it: the directory it looked for is \<^verbatim>\<open>/ws/ws/in\<close>.
\<close>

theorem C9_chdir_counterexample:
  "filepath_IsAbs example_os ''/ws/in''
   \<and> validatePathLocked example_os example_session ''/ws/in'' = None
   \<and> os_Stat example_os ''/ws/in'' = Inr True
   \<and> Chdir example_os example_session (Some ''/ws/in'')
       = (Inl (InvalidPath (FailedToResolvePath ErrNotExist)), example_session)"
  by code_simp

subsection \<open>Line framing\<close>

lemma spaceRunes_nonempty: "e \<in> set spaceRunes \<Longrightarrow> e \<noteq> []"
  by (auto simp add: spaceRunes_def)

lemma spaceWidth_0_iff: "spaceWidth s = 0 \<longleftrightarrow> (\<forall>e\<in>set spaceRunes. \<not> prefix e s)"
proof (cases "find (\<lambda>e. prefix e s) spaceRunes")
  case None
  then have "\<forall>e\<in>set spaceRunes. \<not> prefix e s" by (simp add: find_None_iff)
  with None show ?thesis by (simp add: spaceWidth_def)
next
  case (Some e)
  then have "e \<in> set spaceRunes" "prefix e s"
    by (auto simp add: find_Some_iff)
  with Some show ?thesis
    using spaceRunes_nonempty by (auto simp add: spaceWidth_def)
qed

lemma spaceWidthEnd_0_iff: "spaceWidthEnd s = 0 \<longleftrightarrow> (\<forall>e\<in>set spaceRunes. \<not> suffix e s)"
proof (cases "find (\<lambda>e. suffix e s) spaceRunes")
  case None
  then have "\<forall>e\<in>set spaceRunes. \<not> suffix e s" by (simp add: find_None_iff)
  with None show ?thesis by (simp add: spaceWidthEnd_def)
next
  case (Some e)
  then have "e \<in> set spaceRunes" "suffix e s"
    by (auto simp add: find_Some_iff)
  with Some show ?thesis
    using spaceRunes_nonempty by (auto simp add: spaceWidthEnd_def)
qed

lemma trimLeftFrom_id: "spaceWidth s = 0 \<Longrightarrow> trimLeftFrom 0 s = s"
  by (cases s) simp_all

lemma trimRightFrom_id:
  assumes "spaceWidthEnd s = 0"
  shows "trimRightFrom 0 (rev s) = rev s"
proof (cases "rev s")
  case Nil
  then show ?thesis by simp
next
  case (Cons c cs)
  then have "rev (c # cs) = s" by (metis rev_rev_ident)
  with assms Cons show ?thesis by simp
qed

lemma TrimSpace_id: "spaceWidth s = 0 \<Longrightarrow> spaceWidthEnd s = 0 \<Longrightarrow> TrimSpace s = s"
  by (simp add: TrimSpace_def trimLeftFrom_id trimRightFrom_id)

lemma no_trailing_CR: "spaceWidthEnd s = 0 \<Longrightarrow> s \<noteq> [] \<Longrightarrow> last s \<noteq> CR"
proof
  assume z: "spaceWidthEnd s = 0" and ne: "s \<noteq> []" and l: "last s = CR"
  from ne l have "suffix [CR] s"
    by (metis append_butlast_last_id suffixI)
  moreover have "[CR] \<in> set spaceRunes" by (simp add: spaceRunes_def)
  ultimately show False using z by (auto simp add: spaceWidthEnd_0_iff)
qed

lemma ReadBytes_line:
  assumes "LF \<notin> set data"
  shows "ReadBytes \<lparr>unread = data @ LF # rest, ending = e\<rparr>
     = ((data @ [LF], None), \<lparr>unread = rest, ending = e\<rparr>)"
proof -
  from assms have all: "\<forall>x\<in>set data. x \<noteq> LF" by auto
  then have t: "takeWhile (\<lambda>c. c \<noteq> LF) (data @ LF # rest) = data"
    by (simp add: takeWhile_append2)
  from all have d: "dropWhile (\<lambda>c. c \<noteq> LF) (data @ LF # rest) = LF # rest"
    by (simp add: dropWhile_append2)
  show ?thesis by (simp add: ReadBytes_def t d)
qed

lemma Contains_LF: "Contains s [LF] \<longleftrightarrow> LF \<in> set s"
  by (induction s) auto

lemma ReadLineMessage_line:
  assumes "data \<noteq> []" "LF \<notin> set data" "spaceWidth data = 0" "spaceWidthEnd data = 0"
  shows "ReadLineMessage \<lparr>unread = data @ LF # rest, ending = e\<rparr>
           = (if int (length data) > MaxMessageSize then Inl (TooLong (length data)) else Inr data,
              \<lparr>unread = rest, ending = e\<rparr>)"
proof -
  from assms have cr: "last data \<noteq> CR" by (simp add: no_trailing_CR)
  from assms have ts: "TrimSpace data = data" by (simp add: TrimSpace_id)
  show ?thesis
    using assms cr ts
    by (simp add: ReadLineMessage.simps [of "\<lparr>unread = data @ LF # rest, ending = e\<rparr>"]
                  ReadBytes_line Contains_LF)
qed

lemma ReadLineMessage_blank:
  "ReadLineMessage \<lparr>unread = LF # rest, ending = e\<rparr> = ReadLineMessage \<lparr>unread = rest, ending = e\<rparr>"
  using ReadBytes_line [of "[]" rest e]
  by (simp add: ReadLineMessage.simps [of "\<lparr>unread = LF # rest, ending = e\<rparr>"] TrimSpace_def)

lemma suffix_last: "suffix e s \<Longrightarrow> e \<noteq> [] \<Longrightarrow> last e = last s"
  by (auto simp add: suffix_def)

text \<open>
  C4 (as amended). A payload that is non-empty, at most 1 MiB long, holds no LF and
  neither starts nor ends with a white-space rune is written, by a writer that does not
  fail, as the payload and one LF; \<^verbatim>\<open>ReadLineMessage\<close> on those bytes (and whatever follows
  them) returns the payload byte for byte and leaves what follows. \<^verbatim>\<open>WriteLineMessage\<close>
  writes nothing and fails on an empty payload, on one over 1 MiB and on one that holds an
  LF. \<^verbatim>\<open>ReadLineMessage\<close> fails on a line whose payload is over 1 MiB; it passes over a
  blank line, and at the end of the stream it hands on \<^verbatim>\<open>io.EOF\<close>.
\<close>

theorem C4_framing:
  "(data \<noteq> [] \<and> LF \<notin> set data \<and> int (length data) \<le> MaxMessageSize
      \<and> spaceWidth data = 0 \<and> spaceWidthEnd data = 0 \<and> fault w = None \<longrightarrow>
      WriteLineMessage w data = (None, w\<lparr>written := written w @ data @ [LF]\<rparr>)
      \<and> ReadLineMessage \<lparr>unread = data @ [LF] @ rest, ending = e\<rparr>
           = (Inr data, \<lparr>unread = rest, ending = e\<rparr>))
   \<and> (data = [] \<or> LF \<in> set data \<or> int (length data) > MaxMessageSize \<longrightarrow>
        (\<exists>err. WriteLineMessage w data = (Some err, w)))
   \<and> (LF \<notin> set data \<and> spaceWidth data = 0 \<and> spaceWidthEnd data = 0
        \<and> int (length data) > MaxMessageSize \<longrightarrow>
        ReadLineMessage \<lparr>unread = data @ [LF] @ rest, ending = e\<rparr>
          = (Inl (TooLong (length data)), \<lparr>unread = rest, ending = e\<rparr>))
   \<and> ReadLineMessage \<lparr>unread = LF # rest, ending = e\<rparr>
        = ReadLineMessage \<lparr>unread = rest, ending = e\<rparr>
   \<and> ReadLineMessage \<lparr>unread = [], ending = io_EOF\<rparr>
        = (Inl (HandedOn io_EOF), \<lparr>unread = [], ending = io_EOF\<rparr>)"
proof (intro conjI impI)
  assume h: "data \<noteq> [] \<and> LF \<notin> set data \<and> int (length data) \<le> MaxMessageSize
      \<and> spaceWidth data = 0 \<and> spaceWidthEnd data = 0 \<and> fault w = None"
  then show "WriteLineMessage w data = (None, w\<lparr>written := written w @ data @ [LF]\<rparr>)"
    by (simp add: WriteLineMessage_def Contains_LF)
  from h show "ReadLineMessage \<lparr>unread = data @ [LF] @ rest, ending = e\<rparr>
           = (Inr data, \<lparr>unread = rest, ending = e\<rparr>)"
    using ReadLineMessage_line [of data rest e] by simp
next
  assume "data = [] \<or> LF \<in> set data \<or> int (length data) > MaxMessageSize"
  then show "\<exists>err. WriteLineMessage w data = (Some err, w)"
    by (auto simp add: WriteLineMessage_def Contains_LF)
next
  assume h: "LF \<notin> set data \<and> spaceWidth data = 0 \<and> spaceWidthEnd data = 0
        \<and> int (length data) > MaxMessageSize"
  then have "data \<noteq> []" by (auto simp add: MaxMessageSize_def)
  with h show "ReadLineMessage \<lparr>unread = data @ [LF] @ rest, ending = e\<rparr>
          = (Inl (TooLong (length data)), \<lparr>unread = rest, ending = e\<rparr>)"
    using ReadLineMessage_line [of data rest e] by simp
next
  show "ReadLineMessage \<lparr>unread = LF # rest, ending = e\<rparr>
        = ReadLineMessage \<lparr>unread = rest, ending = e\<rparr>"
    by (rule ReadLineMessage_blank)
next
  show "ReadLineMessage \<lparr>unread = [], ending = io_EOF\<rparr>
        = (Inl (HandedOn io_EOF), \<lparr>unread = [], ending = io_EOF\<rparr>)"
    by (simp add: ReadLineMessage.simps [of "\<lparr>unread = [], ending = io_EOF\<rparr>"] ReadBytes_def)
qed

text \<open>
  A two-byte message, a message with an LF in it, and a line of 1048577 bytes.
\<close>

theorem C4_framing_witness:
  "WriteLineMessage \<lparr>written = [], fault = None\<rparr> ''{}''
     = (None, \<lparr>written = ''{}'' @ [LF], fault = None\<rparr>)
   \<and> ReadLineMessage \<lparr>unread = ''{}'' @ [LF], ending = io_EOF\<rparr>
     = (Inr ''{}'', \<lparr>unread = [], ending = io_EOF\<rparr>)
   \<and> (\<exists>err. WriteLineMessage \<lparr>written = [], fault = None\<rparr> (''{'' @ [LF] @ ''}'')
          = (Some err, \<lparr>written = [], fault = None\<rparr>))
   \<and> ReadLineMessage \<lparr>unread = replicate 1048577 (CHR ''x'') @ [LF], ending = io_EOF\<rparr>
     = (Inl (TooLong 1048577), \<lparr>unread = [], ending = io_EOF\<rparr>)"
proof -
  let ?w = "\<lparr>written = [], fault = None\<rparr>"
  let ?big = "replicate 1048577 (CHR ''x'')"
  have ok: "''{}'' \<noteq> [] \<and> LF \<notin> set ''{}'' \<and> int (length ''{}'') \<le> MaxMessageSize
      \<and> spaceWidth ''{}'' = 0 \<and> spaceWidthEnd ''{}'' = 0 \<and> fault ?w = None"
    by (simp add: MaxMessageSize_def spaceWidth_def spaceWidthEnd_def spaceRunes_def suffix_Cons)
  have bad: "''{'' @ [LF] @ ''}'' = [] \<or> LF \<in> set (''{'' @ [LF] @ ''}'')
      \<or> int (length (''{'' @ [LF] @ ''}'')) > MaxMessageSize"
    by simp
  have cons: "?big = CHR ''x'' # replicate 1048576 (CHR ''x'')"
    by (simp add: replicate_Suc [symmetric] del: replicate_Suc)
  have l: "last ?big = CHR ''x''" by simp
  have w0: "spaceWidth ?big = 0"
    unfolding spaceWidth_0_iff cons by (simp add: spaceRunes_def)
  have w1: "spaceWidthEnd ?big = 0"
    unfolding spaceWidthEnd_0_iff
  proof
    fix e assume e: "e \<in> set spaceRunes"
    show "\<not> suffix e ?big"
    proof
      assume "suffix e ?big"
      with e l have "last e = CHR ''x''" using suffix_last spaceRunes_nonempty by metis
      with e show False by (auto simp add: spaceRunes_def)
    qed
  qed
  have long: "LF \<notin> set ?big \<and> spaceWidth ?big = 0 \<and> spaceWidthEnd ?big = 0
        \<and> int (length ?big) > MaxMessageSize"
    using w0 w1 by (simp add: MaxMessageSize_def)
  from C4_framing [of "''{}''" ?w "[]" io_EOF] ok
  have a: "WriteLineMessage ?w ''{}'' = (None, \<lparr>written = ''{}'' @ [LF], fault = None\<rparr>)"
    and b: "ReadLineMessage \<lparr>unread = ''{}'' @ [LF], ending = io_EOF\<rparr>
              = (Inr ''{}'', \<lparr>unread = [], ending = io_EOF\<rparr>)"
    by simp_all
  from C4_framing [of "''{'' @ [LF] @ ''}''" ?w "[]" io_EOF] bad
  have c: "\<exists>err. WriteLineMessage ?w (''{'' @ [LF] @ ''}'') = (Some err, ?w)"
    by blast
  from C4_framing [of ?big ?w "[]" io_EOF] long
  have d: "ReadLineMessage \<lparr>unread = ?big @ [LF], ending = io_EOF\<rparr>
     = (Inl (TooLong 1048577), \<lparr>unread = [], ending = io_EOF\<rparr>)"
    by simp
  from a b c d show ?thesis by simp
qed

text \<open>
  The claim as the specification words it fails on a payload that ends in a space:
  \<^verbatim>\<open>"a "\<close> is non-empty, short and has no LF, it is written, and it is read back as
  \<^verbatim>\<open>"a"\<close>, because the reader trims white space.
\<close>

theorem C4_framing_counterexample:
  "''a '' \<noteq> [] \<and> LF \<notin> set ''a '' \<and> int (length ''a '') \<le> MaxMessageSize
   \<and> WriteLineMessage \<lparr>written = [], fault = None\<rparr> ''a ''
       = (None, \<lparr>written = ''a '' @ [LF], fault = None\<rparr>)
   \<and> ReadLineMessage \<lparr>unread = ''a '' @ [LF], ending = io_EOF\<rparr>
       = (Inr ''a'', \<lparr>unread = [], ending = io_EOF\<rparr>)"
  by code_simp

subsection \<open>Broker: permission requests\<close>

text \<open>
  C6. \<^verbatim>\<open>handlePermissionRequest\<close> answers every request of the agent with a response that
  carries a result, which is not \<^verbatim>\<open>nil\<close>, and no error object. Without an upstream
  connection the result is \<^verbatim>\<open>{outcome: {outcome: "cancelled"}}\<close>; with one, the request is
  forwarded by \<^verbatim>\<open>CallRaw\<close>, and a failed call, a nil response and a response with an error
  object all give the cancelled outcome, while any other response has its result handed
  back as the bytes the upstream sent. \<^verbatim>\<open>handleDownstreamRequest\<close> routes
  \<^verbatim>\<open>session/request_permission\<close> to this handler and touches nothing else. The responses
  are written out in full.
\<close>

theorem C6_permission_request_always_result:
  "(\<exists>res. res \<noteq> Absent
          \<and> handlePermissionRequest r sess msg
              = (Some \<lparr>resp_JSONRPC = ''2.0'', resp_ID = msg_ID msg, resp_Result = res,
                       resp_Error = None\<rparr>, None))
   \<and> (upstream r = None \<longrightarrow>
        handlePermissionRequest r sess msg
          = (Some \<lparr>resp_JSONRPC = ''2.0'', resp_ID = msg_ID msg,
                   resp_Result =
                     Go (JObject [(''outcome'', JObject [(''outcome'', JString ''cancelled'')])]),
                   resp_Error = None\<rparr>, None))
   \<and> (\<forall>up resp err.
        upstream r = Some up
        \<and> CallRaw up ''session/request_permission'' (msg_Params msg) = (resp, err) \<longrightarrow>
          (err \<noteq> None \<or> resp = None \<longrightarrow>
             handlePermissionRequest r sess msg
               = (Some \<lparr>resp_JSONRPC = ''2.0'', resp_ID = msg_ID msg,
                        resp_Result =
                          Go (JObject [(''outcome'',
                                        JObject [(''outcome'', JString ''cancelled'')])]),
                        resp_Error = None\<rparr>, None))
        \<and> (\<forall>m. err = None \<and> resp = Some m \<and> msg_Error m \<noteq> None \<longrightarrow>
             handlePermissionRequest r sess msg
               = (Some \<lparr>resp_JSONRPC = ''2.0'', resp_ID = msg_ID msg,
                        resp_Result =
                          Go (JObject [(''outcome'',
                                        JObject [(''outcome'', JString ''cancelled'')])]),
                        resp_Error = None\<rparr>, None))
        \<and> (\<forall>m. err = None \<and> resp = Some m \<and> msg_Error m = None \<longrightarrow>
             handlePermissionRequest r sess msg
               = (Some \<lparr>resp_JSONRPC = ''2.0'', resp_ID = msg_ID msg,
                        resp_Result = RawJSON (msg_Result m), resp_Error = None\<rparr>, None)))
   \<and> (msg_Method msg = ''session/request_permission'' \<longrightarrow>
        handleDownstreamRequest dec os b r sess msg w = (handlePermissionRequest r sess msg, w))"
proof (intro conjI allI impI)
  show "\<exists>res. res \<noteq> Absent
          \<and> handlePermissionRequest r sess msg
              = (Some \<lparr>resp_JSONRPC = ''2.0'', resp_ID = msg_ID msg, resp_Result = res,
                       resp_Error = None\<rparr>, None)"
    by (auto simp add: handlePermissionRequest_def okResult_def NewResultResponse_def
             JSONRPCVersion_def cancelled_def split: option.splits prod.splits)
qed (auto simp add: handlePermissionRequest_def okResult_def NewResultResponse_def
          JSONRPCVersion_def cancelled_def handleDownstreamRequest_def)

text \<open>
  On the concrete broker: no upstream, an upstream whose pipe is broken, one that answers
  with method-not-found, and one that grants.
\<close>

theorem C6_permission_request_always_result_witness:
  "handlePermissionRequest example_runner example_acp_session
       (request ''session/request_permission'' ''{ask}'')
     = (Some \<lparr>resp_JSONRPC = ''2.0'', resp_ID = ''7'',
              resp_Result =
                Go (JObject [(''outcome'', JObject [(''outcome'', JString ''cancelled'')])]),
              resp_Error = None\<rparr>, None)
   \<and> handlePermissionRequest (example_runner\<lparr>upstream := Some broken_upstream\<rparr>)
       example_acp_session (request ''session/request_permission'' ''{ask}'')
     = (Some \<lparr>resp_JSONRPC = ''2.0'', resp_ID = ''7'',
              resp_Result =
                Go (JObject [(''outcome'', JObject [(''outcome'', JString ''cancelled'')])]),
              resp_Error = None\<rparr>, None)
   \<and> handlePermissionRequest (example_runner\<lparr>upstream := Some refusing_upstream\<rparr>)
       example_acp_session (request ''session/request_permission'' ''{ask}'')
     = (Some \<lparr>resp_JSONRPC = ''2.0'', resp_ID = ''7'',
              resp_Result =
                Go (JObject [(''outcome'', JObject [(''outcome'', JString ''cancelled'')])]),
              resp_Error = None\<rparr>, None)
   \<and> handlePermissionRequest (example_runner\<lparr>upstream := Some granting_upstream\<rparr>)
       example_acp_session (request ''session/request_permission'' ''{ask}'')
     = (Some \<lparr>resp_JSONRPC = ''2.0'', resp_ID = ''7'', resp_Result = RawJSON ''{granted}'',
              resp_Error = None\<rparr>, None)
   \<and> handleDownstreamRequest example_decoders example_os example_backend
       (example_runner\<lparr>upstream := Some granting_upstream\<rparr>) example_acp_session
       (request ''session/request_permission'' ''{ask}'') example_manager
     = ((Some \<lparr>resp_JSONRPC = ''2.0'', resp_ID = ''7'', resp_Result = RawJSON ''{granted}'',
               resp_Error = None\<rparr>, None), example_manager)"
proof -
  let ?msg = "request ''session/request_permission'' ''{ask}''"
  let ?cancel = "(Some \<lparr>resp_JSONRPC = ''2.0'', resp_ID = ''7'',
              resp_Result =
                Go (JObject [(''outcome'', JObject [(''outcome'', JString ''cancelled'')])]),
              resp_Error = None\<rparr>, None :: string option)"
  have i: "msg_ID ?msg = ''7''" and p: "msg_Params ?msg = ''{ask}''"
    and me: "msg_Method ?msg = ''session/request_permission''"
    by (simp_all add: request_def)
  have u0: "upstream example_runner = None"
    by (simp add: example_runner_def NewRunner_def)
  have cb: "CallRaw broken_upstream ''session/request_permission'' ''{ask}''
              = (None, Some ''write message: broken pipe'')"
    by (simp add: broken_upstream_def)
  have cr: "CallRaw refusing_upstream ''session/request_permission'' ''{ask}''
              = (Some ((response [])\<lparr>msg_Error := Some \<lparr>Code = ErrMethodNotFound,
                   Message = ''method not found'', Cause = None\<rparr>\<rparr>), None)"
    by (simp add: refusing_upstream_def)
  have cg: "CallRaw granting_upstream ''session/request_permission'' ''{ask}''
              = (Some (response ''{granted}''), None)"
    by (simp add: granting_upstream_def)
  have rg: "msg_Error (response ''{granted}'') = None"
    "msg_Result (response ''{granted}'') = ''{granted}''"
    by (simp_all add: response_def)
  from C6_permission_request_always_result
         [of example_runner example_acp_session ?msg example_decoders example_os
            example_backend example_manager] u0 i
  have a: "handlePermissionRequest example_runner example_acp_session ?msg = ?cancel"
    by simp
  from C6_permission_request_always_result
         [of "example_runner\<lparr>upstream := Some broken_upstream\<rparr>" example_acp_session ?msg
            example_decoders example_os example_backend example_manager]
       cb i p
  have b: "handlePermissionRequest (example_runner\<lparr>upstream := Some broken_upstream\<rparr>)
             example_acp_session ?msg = ?cancel"
    by simp
  from C6_permission_request_always_result
         [of "example_runner\<lparr>upstream := Some refusing_upstream\<rparr>" example_acp_session ?msg
            example_decoders example_os example_backend example_manager]
       cr i p
  have c: "handlePermissionRequest (example_runner\<lparr>upstream := Some refusing_upstream\<rparr>)
             example_acp_session ?msg = ?cancel"
    by simp
  from C6_permission_request_always_result
         [of "example_runner\<lparr>upstream := Some granting_upstream\<rparr>" example_acp_session ?msg
            example_decoders example_os example_backend example_manager]
       cg rg i p me
  have d: "handlePermissionRequest (example_runner\<lparr>upstream := Some granting_upstream\<rparr>)
             example_acp_session ?msg
             = (Some \<lparr>resp_JSONRPC = ''2.0'', resp_ID = ''7'',
                      resp_Result = RawJSON ''{granted}'', resp_Error = None\<rparr>, None)"
    and e: "handleDownstreamRequest example_decoders example_os example_backend
       (example_runner\<lparr>upstream := Some granting_upstream\<rparr>) example_acp_session
       ?msg example_manager
     = (handlePermissionRequest (example_runner\<lparr>upstream := Some granting_upstream\<rparr>)
             example_acp_session ?msg, example_manager)"
    by simp_all
  from a b c d e show ?thesis by simp
qed

subsection \<open>Broker: capabilities reported upstream\<close>

text \<open>\<^verbatim>\<open>session/new\<close> writes the cache only through \<^verbatim>\<open>updateCachedCapabilities\<close>.\<close>

lemma sessionNewForward_cachedCaps:
  "cachedCaps (snd (sessionNewForward dec os r down ws msg)) = cachedCaps r"
  by (simp add: sessionNewForward_def split: prod.splits option.splits)

text \<open>
  With a filled cache \<^verbatim>\<open>buildAgentCapabilities\<close> spawns nothing and returns the four
  default entries, each of the three sub-objects replaced by the cached one where the
  cache has it, and \<^verbatim>\<open>loadSession\<close> false.
\<close>

lemma buildAgentCapabilities_cached:
  assumes "cachedCaps r = Some c"
  shows "buildAgentCapabilities dec r spawn
           = ([(''loadSession'', JBool False),
               (''promptCapabilities'',
                  case map_of c ''promptCapabilities'' of
                    Some v \<Rightarrow> v
                  | None \<Rightarrow> JObject [(''image'', JBool False), (''audio'', JBool False),
                                     (''embeddedContext'', JBool False)]),
               (''mcpCapabilities'',
                  case map_of c ''mcpCapabilities'' of
                    Some v \<Rightarrow> v
                  | None \<Rightarrow> JObject [(''http'', JBool False), (''sse'', JBool False)]),
               (''sessionCapabilities'',
                  case map_of c ''sessionCapabilities'' of
                    Some v \<Rightarrow> v
                  | None \<Rightarrow> JObject [])], r)"
proof -
  have u1: "AList.update ''promptCapabilities'' v
              [(''loadSession'', l), (''promptCapabilities'', p), (''mcpCapabilities'', m),
               (''sessionCapabilities'', s)]
            = [(''loadSession'', l), (''promptCapabilities'', v), (''mcpCapabilities'', m),
               (''sessionCapabilities'', s)]" for v l p m s :: json
    by simp
  have u2: "AList.update ''mcpCapabilities'' v
              [(''loadSession'', l), (''promptCapabilities'', p), (''mcpCapabilities'', m),
               (''sessionCapabilities'', s)]
            = [(''loadSession'', l), (''promptCapabilities'', p), (''mcpCapabilities'', v),
               (''sessionCapabilities'', s)]" for v l p m s :: json
    by simp
  have u3: "AList.update ''sessionCapabilities'' v
              [(''loadSession'', l), (''promptCapabilities'', p), (''mcpCapabilities'', m),
               (''sessionCapabilities'', s)]
            = [(''loadSession'', l), (''promptCapabilities'', p), (''mcpCapabilities'', m),
               (''sessionCapabilities'', v)]" for v l p m s :: json
    by simp
  have u4: "AList.update ''loadSession'' v
              [(''loadSession'', l), (''promptCapabilities'', p), (''mcpCapabilities'', m),
               (''sessionCapabilities'', s)]
            = [(''loadSession'', v), (''promptCapabilities'', p), (''mcpCapabilities'', m),
               (''sessionCapabilities'', s)]" for v l p m s :: json
    by simp
  show ?thesis
    using assms
    by (cases "map_of c ''promptCapabilities''"; cases "map_of c ''mcpCapabilities''";
        cases "map_of c ''sessionCapabilities''")
       (simp_all only: buildAgentCapabilities_def getCachedCapabilities_def
          defaultAgentCapabilities_def Let_def option.case prod.case u1 u2 u3 u4)
qed

text \<open>
  C8 (as amended). Whenever \<^verbatim>\<open>session/new\<close> reaches the downstream \<^verbatim>\<open>initialize\<close> and the agent
  answers with a result from which \<^verbatim>\<open>agentCapabilities\<close> can be read, the broker holds these
  capabilities in its cache afterwards, whatever the cache held before and however the
  rest of \<^verbatim>\<open>session/new\<close> ends: every such \<^verbatim>\<open>session/new\<close> writes the cache, not only the
  first. An upstream \<^verbatim>\<open>initialize\<close> handled in that state answers with the
  result written out below: \<^verbatim>\<open>loadSession\<close> false, and for each of \<^verbatim>\<open>promptCapabilities\<close>,
  \<^verbatim>\<open>mcpCapabilities\<close> and \<^verbatim>\<open>sessionCapabilities\<close> the cached value as it was reported, or the
  default where the agent reported none. It leaves the broker as it was, so that the
  next \<^verbatim>\<open>initialize\<close> gives the same answer.
\<close>

theorem C8_capabilities_cached_and_overlaid:
  assumes "AgentCommand (Agent (cfg r)) \<noteq> ''''"
    and "Unmarshal_sessionNewParams dec (msg_Params msg) = Some params"
    and "Cwd params \<noteq> ''''" and "filepath_IsAbs os (Cwd params)"
    and "fst (SetRoot os (NewSession (cfg r)) (Cwd params)) = None"
    and "Call down ''initialize'' (initParams (cfg r)) = (Some initResp, None)"
    and "msg_Error initResp = None"
    and "parseAgentCapabilities dec (msg_Result initResp) = Some caps"
  shows "cachedCaps (snd (handleSessionNew dec os r (Inr down) msg)) = Some caps
       \<and> handleInitialize dec (snd (handleSessionNew dec os r (Inr down) msg)) spawn' imsg
           = ((Some \<lparr>resp_JSONRPC = ''2.0'', resp_ID = msg_ID imsg,
                     resp_Result =
                       Go (JObject
                         [(''protocolVersion'', JNumber 1),
                          (''agentCapabilities'',
                             JObject
                               [(''loadSession'', JBool False),
                                (''promptCapabilities'',
                                   case map_of caps ''promptCapabilities'' of
                                     Some v \<Rightarrow> v
                                   | None \<Rightarrow>
                                       JObject [(''image'', JBool False),
                                                (''audio'', JBool False),
                                                (''embeddedContext'', JBool False)]),
                                (''mcpCapabilities'',
                                   case map_of caps ''mcpCapabilities'' of
                                     Some v \<Rightarrow> v
                                   | None \<Rightarrow>
                                       JObject [(''http'', JBool False), (''sse'', JBool False)]),
                                (''sessionCapabilities'',
                                   case map_of caps ''sessionCapabilities'' of
                                     Some v \<Rightarrow> v
                                   | None \<Rightarrow> JObject [])]),
                          (''agentInfo'',
                             JObject [(''name'', JString ''tldw-agent-runner''),
                                      (''title'', JString ''TLDW ACP Runner''),
                                      (''version'', JString ''0.1.0'')]),
                          (''authMethods'', JArray [])]),
                     resp_Error = None\<rparr>, None),
              snd (handleSessionNew dec os r (Inr down) msg))"
proof -
  let ?r1 = "snd (handleSessionNew dec os r (Inr down) msg)"
  from assms(8) have raw: "msg_Result initResp \<noteq> []"
    by (auto simp add: parseAgentCapabilities_def)
  obtain ws where ws: "SetRoot os (NewSession (cfg r)) (Cwd params) = (None, ws)"
    using assms(5) by (cases "SetRoot os (NewSession (cfg r)) (Cwd params)") auto
  have "handleSessionNew dec os r (Inr down) msg
          = sessionNewForward dec os (r\<lparr>cachedCaps := Some caps\<rparr>) down ws msg"
    using assms raw ws
    by (simp add: handleSessionNew_def updateCachedCapabilities_def)
  then have c: "cachedCaps ?r1 = Some caps"
    by (simp add: sessionNewForward_cachedCaps)
  show ?thesis
    by (simp only: c handleInitialize_def buildAgentCapabilities_cached [OF c] prod.case
          initializeResult_def NewResultResponse_def JSONRPCVersion_def
          defaultProtocolVersion_def runnerName_def runnerVersion_def simp_thms)
qed

text \<open>
  On the concrete broker, whose agent reports all prompt and MCP capabilities and
  \<^verbatim>\<open>cancel\<close>, after one \<^verbatim>\<open>session/new\<close> for \<^verbatim>\<open>/ws\<close>.
\<close>

theorem C8_capabilities_cached_and_overlaid_witness:
  "cachedCaps (snd (handleSessionNew example_decoders example_os example_runner
                      (Inr stub_agent) (request ''session/new'' ''{cwd-ws}'')))
     = Some [(''promptCapabilities'',
                JObject [(''image'', JBool True), (''audio'', JBool True),
                         (''embeddedContext'', JBool True)]),
             (''mcpCapabilities'', JObject [(''http'', JBool True), (''sse'', JBool True)]),
             (''sessionCapabilities'', JObject [(''cancel'', JBool True)])]
   \<and> handleInitialize example_decoders
         (snd (handleSessionNew example_decoders example_os example_runner
                 (Inr stub_agent) (request ''session/new'' ''{cwd-ws}'')))
         (Inl ''no agent'') (request ''initialize'' ''{}'')
       = ((Some \<lparr>resp_JSONRPC = ''2.0'', resp_ID = ''7'',
                 resp_Result =
                   Go (JObject
                     [(''protocolVersion'', JNumber 1),
                      (''agentCapabilities'',
                         JObject
                           [(''loadSession'', JBool False),
                            (''promptCapabilities'',
                               JObject [(''image'', JBool True), (''audio'', JBool True),
                                        (''embeddedContext'', JBool True)]),
                            (''mcpCapabilities'',
                               JObject [(''http'', JBool True), (''sse'', JBool True)]),
                            (''sessionCapabilities'', JObject [(''cancel'', JBool True)])]),
                      (''agentInfo'',
                         JObject [(''name'', JString ''tldw-agent-runner''),
                                  (''title'', JString ''TLDW ACP Runner''),
                                  (''version'', JString ''0.1.0'')]),
                      (''authMethods'', JArray [])]),
                 resp_Error = None\<rparr>, None),
          snd (handleSessionNew example_decoders example_os example_runner
                 (Inr stub_agent) (request ''session/new'' ''{cwd-ws}'')))"
proof -
  let ?new = "request ''session/new'' ''{cwd-ws}''"
  have h1: "AgentCommand (Agent (cfg example_runner)) \<noteq> ''''"
    by (simp add: example_runner_def NewRunner_def)
  have h2: "Unmarshal_sessionNewParams example_decoders (msg_Params ?new) = Some \<lparr>Cwd = ''/ws''\<rparr>"
    by (simp add: example_decoders_def request_def)
  have h3: "Cwd \<lparr>Cwd = ''/ws''\<rparr> \<noteq> ''''" by simp
  have h4: "filepath_IsAbs example_os (Cwd \<lparr>Cwd = ''/ws''\<rparr>)" by code_simp
  have h5: "fst (SetRoot example_os (NewSession (cfg example_runner)) (Cwd \<lparr>Cwd = ''/ws''\<rparr>)) = None"
    by code_simp
  have h6: "Call stub_agent ''initialize'' (initParams (cfg example_runner))
              = (Some (response ''{init-result}''), None)"
    by (simp add: stub_agent_def)
  have h7: "msg_Error (response ''{init-result}'') = None" by (simp add: response_def)
  have h8: "parseAgentCapabilities example_decoders (msg_Result (response ''{init-result}''))
              = Some stub_caps"
    by code_simp
  have s0: "stub_caps
              = [(''promptCapabilities'',
                    JObject [(''image'', JBool True), (''audio'', JBool True),
                             (''embeddedContext'', JBool True)]),
                 (''mcpCapabilities'', JObject [(''http'', JBool True), (''sse'', JBool True)]),
                 (''sessionCapabilities'', JObject [(''cancel'', JBool True)])]"
    by (simp add: stub_caps_def)
  have s1: "map_of stub_caps ''promptCapabilities''
            = Some (JObject [(''image'', JBool True), (''audio'', JBool True),
                             (''embeddedContext'', JBool True)])"
    and s2: "map_of stub_caps ''mcpCapabilities''
            = Some (JObject [(''http'', JBool True), (''sse'', JBool True)])"
    and s3: "map_of stub_caps ''sessionCapabilities'' = Some (JObject [(''cancel'', JBool True)])"
    by code_simp+
  have id7: "msg_ID (request ''initialize'' ''{}'') = ''7''" by (simp add: request_def)
  from C8_capabilities_cached_and_overlaid [OF h1 h2 h3 h4 h5 h6 h7 h8,
         of "Inl ''no agent''" "request ''initialize'' ''{}''"]
  show ?thesis
    by (simp only: s1 s2 s3 id7 option.case s0 [symmetric])
qed

text \<open>
  The claim as the specification words it has the capabilities cached the first time
  and reported from then on. After a second \<^verbatim>\<open>session/new\<close>, served by an agent that
  reports embedded context only, the cache holds what the second agent reported, and
  the upstream \<^verbatim>\<open>initialize\<close> no longer reports images, audio, MCP transports or \<^verbatim>\<open>cancel\<close>,
  which the first agent had reported.
\<close>

theorem C8_capabilities_cached_and_overlaid_counterexample:
  "cachedCaps (snd (handleSessionNew example_decoders example_os example_runner
                      (Inr stub_agent) (request ''session/new'' ''{cwd-ws}'')))
     = Some [(''promptCapabilities'',
                JObject [(''image'', JBool True), (''audio'', JBool True),
                         (''embeddedContext'', JBool True)]),
             (''mcpCapabilities'', JObject [(''http'', JBool True), (''sse'', JBool True)]),
             (''sessionCapabilities'', JObject [(''cancel'', JBool True)])]
   \<and> cachedCaps
         (snd (handleSessionNew example_decoders example_os
                 (snd (handleSessionNew example_decoders example_os example_runner
                         (Inr stub_agent) (request ''session/new'' ''{cwd-ws}'')))
                 (Inr later_agent) (request ''session/new'' ''{cwd-ws}'')))
     = Some [(''promptCapabilities'',
                JObject [(''image'', JBool False), (''audio'', JBool False),
                         (''embeddedContext'', JBool True)])]
   \<and> fst (handleInitialize example_decoders
         (snd (handleSessionNew example_decoders example_os
                 (snd (handleSessionNew example_decoders example_os example_runner
                         (Inr stub_agent) (request ''session/new'' ''{cwd-ws}'')))
                 (Inr later_agent) (request ''session/new'' ''{cwd-ws}'')))
         (Inl ''no agent'') (request ''initialize'' ''{}''))
       = (Some \<lparr>resp_JSONRPC = ''2.0'', resp_ID = ''7'',
                resp_Result =
                  Go (JObject
                    [(''protocolVersion'', JNumber 1),
                     (''agentCapabilities'',
                        JObject
                          [(''loadSession'', JBool False),
                           (''promptCapabilities'',
                              JObject [(''image'', JBool False), (''audio'', JBool False),
                                       (''embeddedContext'', JBool True)]),
                           (''mcpCapabilities'',
                              JObject [(''http'', JBool False), (''sse'', JBool False)]),
                           (''sessionCapabilities'', JObject [])]),
                     (''agentInfo'',
                        JObject [(''name'', JString ''tldw-agent-runner''),
                                 (''title'', JString ''TLDW ACP Runner''),
                                 (''version'', JString ''0.1.0'')]),
                     (''authMethods'', JArray [])]),
                resp_Error = None\<rparr>, None)"
  by code_simp


subsection \<open>Broker: the session id of a callback\<close>




end
